theory Spec2Isabelle
  imports Complex_Main "HOL-Library.List_Lexorder" "HOL-Library.Char_ord"
begin

section \<open>Pipe network analysis (HW6_2_2_OOP.py)\<close>

text \<open>
  A shallow embedding of the classes \<^verbatim>\<open>Fluid\<close>, \<^verbatim>\<open>Node\<close>, \<^verbatim>\<open>Loop\<close>, \<^verbatim>\<open>Pipe\<close> and
  \<^verbatim>\<open>PipeNetwork\<close>.

  \<^item> Python floats are modelled by \<^typ>\<open>real\<close> (no rounding, no infinities, no NaN); a
    division of Python numbers whose divisor is zero raises \<^verbatim>\<open>ZeroDivisionError\<close> and is
    an error value here. Every divisor of the program is a Python number in the states
    considered: the area, the diameter and the viscosity are set by the constructors, and
    the velocity, from which the Reynolds number is computed, is set by \<^verbatim>\<open>V\<close> from a flow
    given as a Python number (the constructor's 10, or a value assigned by a caller).
  \<^item> Node names are Python strings compared by code point; they are \<^typ>\<open>string\<close>
    with the lexicographic order on characters.
  \<^item> Objects live in stores indexed by references (natural numbers), because pipes are
    shared between the network, its nodes and its loops, and list objects are shared
    between instances through default arguments.
  \<^item> \<^verbatim>\<open>scipy.optimize.fsolve\<close> is not part of the program: the scalar root finder used
    for the Colebrook equation is a parameter \<open>solve\<close> (function and initial guess to
    returned estimate), the vector root finder used by \<^verbatim>\<open>findFlowRates\<close> is a parameter
    too.
  \<^item> \<^verbatim>\<open>random.normalvariate(mu, sigma)\<close> returns \<open>mu + z * sigma\<close> for a standard
    normal deviate \<open>z\<close> drawn from the process-wide generator; the generator is the
    stream of deviates it will produce.
\<close>

subsection \<open>Errors and the random generator\<close>

datatype error = IndexError | ZeroDivisionError

type_synonym rng = "nat \<Rightarrow> real"

definition normalvariate :: "real \<Rightarrow> real \<Rightarrow> rng \<Rightarrow> real \<times> rng" where
  "normalvariate m sigma g = (m + g 0 * sigma, \<lambda>n. g (Suc n))"

type_synonym solver1 = "(real \<Rightarrow> real) \<Rightarrow> real \<Rightarrow> real"

subsection \<open>Fluid\<close>

record Fluid =
  mu :: real
  rho :: real
  nu :: real

definition Fluid_init :: "real \<Rightarrow> real \<Rightarrow> error + Fluid" where
  "Fluid_init m d =
     (if d = 0 then Inl ZeroDivisionError
      else Inr \<lparr>mu = m, rho = d, nu = m / d\<rparr>)"

text \<open>The default fluid \<^verbatim>\<open>Fluid()\<close>: \<^verbatim>\<open>mu=0.00089, rho=1000\<close>.\<close>

definition water :: Fluid where
  "water = \<lparr>mu = 0.00089, rho = 1000, nu = 0.00089 / 1000\<rparr>"

subsection \<open>Pipe\<close>

text \<open>
  Fields of \<^verbatim>\<open>Pipe\<close>: \<^verbatim>\<open>length\<close> is \<open>pipe_length\<close>, \<^verbatim>\<open>r\<close> is \<open>roughness\<close>, \<^verbatim>\<open>A\<close> is
  \<open>area\<close>, \<^verbatim>\<open>Q\<close> is \<open>flowQ\<close>; the others keep their names.
\<close>

record Pipe =
  startNode :: string
  endNode :: string
  pipe_length :: real
  diameter :: real
  roughness :: real
  fluid :: Fluid
  area :: real
  flowQ :: real
  vel :: real
  reynolds :: real

text \<open>\<^verbatim>\<open>V\<close>: \<^verbatim>\<open>self.vel = (self.Q / 1000) / self.A; return self.vel\<close>.\<close>

definition V :: "Pipe \<Rightarrow> error + (real \<times> Pipe)" where
  "V p =
     (if area p = 0 then Inl ZeroDivisionError
      else let v = (flowQ p / 1000) / area p in Inr (v, p\<lparr>vel := v\<rparr>))"

text \<open>
  \<^verbatim>\<open>Re\<close> (named \<open>Re_pipe\<close>, since \<open>Re\<close> is the real part of a complex number in HOL):
  \<^verbatim>\<open>self.reynolds = (self.fluid.rho * self.vel * self.diameter) / self.fluid.mu\<close>.
  It reads the stored \<^verbatim>\<open>self.vel\<close>; it does not call \<^verbatim>\<open>V\<close>.
\<close>

definition Re_pipe :: "Pipe \<Rightarrow> error + (real \<times> Pipe)" where
  "Re_pipe p =
     (if mu (fluid p) = 0 then Inl ZeroDivisionError
      else let x = (rho (fluid p) * vel p * diameter p) / mu (fluid p)
           in Inr (x, p\<lparr>reynolds := x\<rparr>))"

text \<open>
  The constructor. \<^verbatim>\<open>min\<close> and \<^verbatim>\<open>max\<close> order the two names, the diameter is converted
  from millimetres, the flow starts at 10, and \<^verbatim>\<open>V\<close> and \<^verbatim>\<open>Re\<close> are called once.
\<close>

definition Pipe_init ::
  "string \<Rightarrow> string \<Rightarrow> real \<Rightarrow> real \<Rightarrow> real \<Rightarrow> Fluid \<Rightarrow> error + Pipe" where
  "Pipe_init Start End L D r fl =
     (let d = D / 1000;
          p0 = \<lparr>startNode = min Start End, endNode = max Start End, pipe_length = L,
                diameter = d, roughness = r, fluid = fl, area = pi * (d / 2) ^ 2,
                flowQ = 10, vel = 0, reynolds = 0\<rparr>
      in case V p0 of
           Inl e \<Rightarrow> Inl e
         | Inr (v, p1) \<Rightarrow>
             (case Re_pipe (p1\<lparr>vel := v\<rparr>) of
                Inl e \<Rightarrow> Inl e
              | Inr (x, p2) \<Rightarrow> Inr (p2\<lparr>reynolds := x\<rparr>)))"

text \<open>
  The Colebrook residual handed to the root finder:
  \<^verbatim>\<open>lambda f: 1 / (f ** 0.5) + 2.0 * np.log10(rr / 3.7 + 2.51 / (Re * f ** 0.5))\<close>.
  It is evaluated by the root finder only, on numpy arrays; where numpy yields nan or inf
  (a negative or zero \<open>f\<close>, a non-positive argument of the logarithm) the value of \<open>cb\<close>
  is whatever HOL's total functions give, and no property below depends on it.
\<close>

definition cb :: "real \<Rightarrow> real \<Rightarrow> real \<Rightarrow> real" where
  "cb rr x f = 1 / sqrt f + 2.0 * log 10 (rr / 3.7 + 2.51 / (x * sqrt f))"

text \<open>\<^verbatim>\<open>CB\<close>: \<^verbatim>\<open>result = fsolve(cb, [0.01]); return result[0]\<close>.\<close>

definition CB :: "solver1 \<Rightarrow> real \<Rightarrow> real \<Rightarrow> real" where
  "CB solve rr x = solve (cb rr x) 0.01"

text \<open>\<^verbatim>\<open>lam\<close>: \<^verbatim>\<open>return 64 / Re\<close>.\<close>

definition lam :: "real \<Rightarrow> error + real" where
  "lam x = (if x = 0 then Inl ZeroDivisionError else Inr (64 / x))"

text \<open>
  \<^verbatim>\<open>FrictionFactor\<close>. The result carries the pipe (whose \<^verbatim>\<open>reynolds\<close> field \<^verbatim>\<open>Re\<close> has
  rewritten) and the generator.
\<close>

definition FrictionFactor :: "solver1 \<Rightarrow> Pipe \<Rightarrow> rng \<Rightarrow> error + (real \<times> Pipe \<times> rng)" where
  "FrictionFactor solve p g =
     (case Re_pipe p of
        Inl e \<Rightarrow> Inl e
      | Inr (x, p') \<Rightarrow>
          if diameter p' = 0 then Inl ZeroDivisionError
          else let rr = roughness p' / diameter p' in
            if x \<ge> 4000 then Inr (CB solve rr x, p', g)
            else if x \<le> 2000 then
              (case lam x of Inl e \<Rightarrow> Inl e | Inr f \<Rightarrow> Inr (f, p', g))
            else
              let CBff = CB solve rr x in
              (case lam x of
                 Inl e \<Rightarrow> Inl e
               | Inr Lamff \<Rightarrow>
                   let mean = Lamff + ((x - 2000) / (4000 - 2000)) * (CBff - Lamff);
                       sig = 0.2 * mean;
                       (f, g') = normalvariate mean sig g
                   in Inr (f, p', g')))"

text \<open>
  \<^verbatim>\<open>frictionHeadLoss\<close>:
  \<^verbatim>\<open>hl = (ff * self.length / self.diameter) * (self.vel ** 2 / (2 * g))\<close> with \<^verbatim>\<open>g = 9.81\<close>.
\<close>

definition frictionHeadLoss :: "solver1 \<Rightarrow> Pipe \<Rightarrow> rng \<Rightarrow> error + (real \<times> Pipe \<times> rng)" where
  "frictionHeadLoss solve p g =
     (case FrictionFactor solve p g of
        Inl e \<Rightarrow> Inl e
      | Inr (ff, p', g') \<Rightarrow>
          if diameter p' = 0 then Inl ZeroDivisionError
          else Inr ((ff * pipe_length p' / diameter p') * ((vel p') ^ 2 / (2 * 9.81)), p', g'))"

text \<open>\<^verbatim>\<open>getFlowHeadLoss(s)\<close>: \<^verbatim>\<open>nTraverse * nFlow * self.frictionHeadLoss()\<close>.\<close>

definition getFlowHeadLoss ::
  "solver1 \<Rightarrow> Pipe \<Rightarrow> string \<Rightarrow> rng \<Rightarrow> error + (real \<times> Pipe \<times> rng)" where
  "getFlowHeadLoss solve p s g =
     (let nTraverse = (if s = startNode p then 1 else -1);
          nFlow = (if flowQ p \<ge> 0 then 1 else -1)
      in case frictionHeadLoss solve p g of
           Inl e \<Rightarrow> Inl e
         | Inr (hl, p', g') \<Rightarrow> Inr (nTraverse * nFlow * hl, p', g'))"

text \<open>\<^verbatim>\<open>Name\<close>: \<^verbatim>\<open>f'{self.startNode}-{self.endNode}'\<close>.\<close>

definition Name :: "Pipe \<Rightarrow> string" where
  "Name p = startNode p @ ''-'' @ endNode p"

definition oContainsNode :: "Pipe \<Rightarrow> string \<Rightarrow> bool" where
  "oContainsNode p node \<longleftrightarrow> startNode p = node \<or> endNode p = node"

text \<open>\<^verbatim>\<open>getFlowIntoNode(n)\<close>.\<close>

definition getFlowIntoNode :: "Pipe \<Rightarrow> string \<Rightarrow> real" where
  "getFlowIntoNode p n = (if n = startNode p then - flowQ p else flowQ p)"

subsection \<open>The object store\<close>

text \<open>
  References are natural numbers. \<open>list_obj\<close> holds the list objects (lists of
  references), \<open>pipe_obj\<close>, \<open>node_obj\<close> and \<open>loop_obj\<close> the instances, \<open>gen\<close> the
  process-wide random generator.
\<close>

record Node =
  name :: string
  pipes :: nat
  extFlow :: real

record Loop =
  loop_name :: string
  loop_pipes :: nat

record PipeNetwork =
  loops :: nat
  nodes :: nat
  net_fluid :: Fluid
  net_pipes :: nat

record state =
  pipe_obj :: "nat \<Rightarrow> Pipe"
  node_obj :: "nat \<Rightarrow> Node"
  loop_obj :: "nat \<Rightarrow> Loop"
  list_obj :: "nat \<Rightarrow> nat list"
  gen :: rng

subsection \<open>Constructors with default collections\<close>

text \<open>
  \<^verbatim>\<open>def __init__(self, Name='a', Pipes=[], ExtFlow=0)\<close>: Python evaluates a default
  value once, when the \<^verbatim>\<open>def\<close> statement runs, and every call that omits the argument
  receives that one object. The five default lists of the module are the list objects
  at references 0 to 4; an omitted argument is \<open>None\<close>.
\<close>

definition Node_Pipes_default :: nat where "Node_Pipes_default = 0"
definition Loop_Pipes_default :: nat where "Loop_Pipes_default = 1"
definition PipeNetwork_Pipes_default :: nat where "PipeNetwork_Pipes_default = 2"
definition PipeNetwork_Loops_default :: nat where "PipeNetwork_Loops_default = 3"
definition PipeNetwork_Nodes_default :: nat where "PipeNetwork_Nodes_default = 4"

definition Node_init :: "string \<Rightarrow> nat option \<Rightarrow> real \<Rightarrow> Node" where
  "Node_init Nm Pipes ExtFlow =
     \<lparr>name = Nm,
      pipes = (case Pipes of None \<Rightarrow> Node_Pipes_default | Some l \<Rightarrow> l),
      extFlow = ExtFlow\<rparr>"

definition Loop_init :: "string \<Rightarrow> nat option \<Rightarrow> Loop" where
  "Loop_init Nm Pipes =
     \<lparr>loop_name = Nm,
      loop_pipes = (case Pipes of None \<Rightarrow> Loop_Pipes_default | Some l \<Rightarrow> l)\<rparr>"

definition PipeNetwork_init ::
  "nat option \<Rightarrow> nat option \<Rightarrow> nat option \<Rightarrow> Fluid \<Rightarrow> PipeNetwork" where
  "PipeNetwork_init Pipes Loops Nodes fl =
     \<lparr>loops = (case Loops of None \<Rightarrow> PipeNetwork_Loops_default | Some l \<Rightarrow> l),
      nodes = (case Nodes of None \<Rightarrow> PipeNetwork_Nodes_default | Some l \<Rightarrow> l),
      net_fluid = fl,
      net_pipes = (case Pipes of None \<Rightarrow> PipeNetwork_Pipes_default | Some l \<Rightarrow> l)\<rparr>"

text \<open>\<^verbatim>\<open>lst.append(x)\<close> on the list object at reference \<open>l\<close>.\<close>

definition list_append :: "state \<Rightarrow> nat \<Rightarrow> nat \<Rightarrow> state" where
  "list_append s l x = s\<lparr>list_obj := (list_obj s)(l := list_obj s l @ [x])\<rparr>"

subsection \<open>Node and Loop\<close>

text \<open>
  \<^verbatim>\<open>getNetFlowRate\<close>: \<^verbatim>\<open>Qtot = self.extFlow / 1000\<close>, then for each pipe
  \<^verbatim>\<open>Qtot += p.getFlowIntoNode(self.name) / 1000\<close>.
\<close>

definition getNetFlowRate :: "Node \<Rightarrow> state \<Rightarrow> real" where
  "getNetFlowRate n s =
     foldl (\<lambda>Qtot a. Qtot + getFlowIntoNode (pipe_obj s a) (name n) / 1000)
       (extFlow n / 1000) (list_obj s (pipes n))"

text \<open>
  The body of the \<^verbatim>\<open>for p in self.pipes\<close> loop of \<^verbatim>\<open>getLoopHeadLoss\<close>; \<open>cur\<close> is the
  variable \<^verbatim>\<open>startNode\<close>, \<open>deltaP\<close> the accumulator.
\<close>

fun loop_traverse ::
  "solver1 \<Rightarrow> nat list \<Rightarrow> string \<Rightarrow> real \<Rightarrow> state \<Rightarrow> error + (real \<times> state)" where
  "loop_traverse solve [] cur deltaP s = Inr (deltaP, s)"
| "loop_traverse solve (a # as) cur deltaP s =
     (case getFlowHeadLoss solve (pipe_obj s a) cur (gen s) of
        Inl e \<Rightarrow> Inl e
      | Inr (phl, p', g') \<Rightarrow>
          loop_traverse solve as
            (if cur \<noteq> endNode p' then endNode p' else startNode p')
            (deltaP + phl)
            (s\<lparr>pipe_obj := (pipe_obj s)(a := p'), gen := g'\<rparr>))"

definition getLoopHeadLoss :: "solver1 \<Rightarrow> Loop \<Rightarrow> state \<Rightarrow> error + (real \<times> state)" where
  "getLoopHeadLoss solve l s =
     (case list_obj s (loop_pipes l) of
        [] \<Rightarrow> Inl IndexError
      | a # as \<Rightarrow> loop_traverse solve (a # as) (startNode (pipe_obj s a)) 0 s)"

subsection \<open>PipeNetwork\<close>

definition getNodeFlowRates :: "PipeNetwork \<Rightarrow> state \<Rightarrow> real list" where
  "getNodeFlowRates net s =
     map (\<lambda>n. getNetFlowRate (node_obj s n) s) (list_obj s (nodes net))"

fun loopHeadLosses :: "solver1 \<Rightarrow> nat list \<Rightarrow> state \<Rightarrow> error + (real list \<times> state)" where
  "loopHeadLosses solve [] s = Inr ([], s)"
| "loopHeadLosses solve (l # ls) s =
     (case getLoopHeadLoss solve (loop_obj s l) s of
        Inl e \<Rightarrow> Inl e
      | Inr (h, s') \<Rightarrow>
          (case loopHeadLosses solve ls s' of
             Inl e \<Rightarrow> Inl e
           | Inr (hs, s'') \<Rightarrow> Inr (h # hs, s'')))"

definition getLoopHeadLosses ::
  "solver1 \<Rightarrow> PipeNetwork \<Rightarrow> state \<Rightarrow> error + (real list \<times> state)" where
  "getLoopHeadLosses solve net s = loopHeadLosses solve (list_obj s (loops net)) s"

text \<open>
  The first loop of \<^verbatim>\<open>fn\<close>: \<^verbatim>\<open>for i in range(len(self.pipes)): self.pipes[i].Q = q[i]\<close>.
  Reading \<^verbatim>\<open>q[i]\<close> beyond the end of the array raises \<^verbatim>\<open>IndexError\<close>.
\<close>

fun write_flows :: "nat list \<Rightarrow> real list \<Rightarrow> nat \<Rightarrow> state \<Rightarrow> error + state" where
  "write_flows [] q i s = Inr s"
| "write_flows (a # as) q i s =
     (if i < length q
      then write_flows as q (Suc i)
             (s\<lparr>pipe_obj := (pipe_obj s)(a := (pipe_obj s a)\<lparr>flowQ := q ! i\<rparr>)\<rparr>)
      else Inl IndexError)"

text \<open>The residual function \<^verbatim>\<open>fn(q)\<close> of \<^verbatim>\<open>findFlowRates\<close>.\<close>

definition fn ::
  "solver1 \<Rightarrow> PipeNetwork \<Rightarrow> real list \<Rightarrow> state \<Rightarrow> error + (real list \<times> state)" where
  "fn solve net q s =
     (case write_flows (list_obj s (net_pipes net)) q 0 s of
        Inl e \<Rightarrow> Inl e
      | Inr s1 \<Rightarrow>
          let L = getNodeFlowRates net s1 in
          (case getLoopHeadLosses solve net s1 of
             Inl e \<Rightarrow> Inl e
           | Inr (lhl, s2) \<Rightarrow> Inr (L @ lhl, s2)))"

text \<open>
  \<^verbatim>\<open>findFlowRates\<close>: \<^verbatim>\<open>N = len(self.nodes) + len(self.loops)\<close>, \<^verbatim>\<open>Q0 = np.full(N, 10)\<close>,
  \<^verbatim>\<open>FR = fsolve(fn, Q0)\<close>. The vector root finder is the parameter \<open>fsolve\<close>: it is
  given the residual function and the initial guess and runs in the store.
\<close>

type_synonym residual = "real list \<Rightarrow> state \<Rightarrow> error + (real list \<times> state)"

type_synonym solverN = "residual \<Rightarrow> real list \<Rightarrow> state \<Rightarrow> error + (real list \<times> state)"

definition findFlowRates ::
  "solverN \<Rightarrow> solver1 \<Rightarrow> PipeNetwork \<Rightarrow> state \<Rightarrow> error + (real list \<times> state)" where
  "findFlowRates fsolve solve net s =
     (let N = length (list_obj s (nodes net)) + length (list_obj s (loops net));
          Q0 = replicate N 10
      in fsolve (fn solve net) Q0 s)"

text \<open>
  The operations of the program that change a \<^verbatim>\<open>Pipe\<close> object: the five methods that
  assign to a field (directly or through a method they call) and the assignment
  \<^verbatim>\<open>self.pipes[i].Q = q[i]\<close> of the residual function.
\<close>

inductive pipe_op :: "Pipe \<Rightarrow> Pipe \<Rightarrow> bool" where
  op_V: "V p = Inr (v, p') \<Longrightarrow> pipe_op p p'"
| op_Re: "Re_pipe p = Inr (x, p') \<Longrightarrow> pipe_op p p'"
| op_FrictionFactor: "FrictionFactor solve p g = Inr (f, p', g') \<Longrightarrow> pipe_op p p'"
| op_frictionHeadLoss: "frictionHeadLoss solve p g = Inr (h, p', g') \<Longrightarrow> pipe_op p p'"
| op_getFlowHeadLoss: "getFlowHeadLoss solve p n g = Inr (h, p', g') \<Longrightarrow> pipe_op p p'"
| op_write_Q: "pipe_op p (p\<lparr>flowQ := q\<rparr>)"

subsection \<open>The friction policy in the words of the specification\<close>

text \<open>
  The three regimes on the Reynolds number \<open>x\<close> and the relative roughness \<open>rr\<close>: the
  numerical root of the Colebrook-White relation
  \<open>1 / sqrt f = - 2 * log 10 (rr / 3.7 + 2.51 / (x * sqrt f))\<close> from the initial guess 0.01
  when \<open>x \<ge> 4000\<close>, \<open>64 / x\<close> when \<open>x \<le> 2000\<close>, and between the two a normal sample of
  mean \<open>f_lam + ((x - 2000) / 2000) * (f_turb - f_lam)\<close> and standard deviation 0.2 times
  the mean, that is the mean plus the standard deviation times the standard normal
  deviate \<open>z\<close>.
\<close>

definition frictionFactor_spec :: "solver1 \<Rightarrow> real \<Rightarrow> real \<Rightarrow> real \<Rightarrow> real" where
  "frictionFactor_spec solve x rr z =
     (let f_turb = solve (\<lambda>f. 1 / sqrt f - (- 2 * log 10 (rr / 3.7 + 2.51 / (x * sqrt f)))) 0.01;
          f_lam = 64 / x
      in if x \<ge> 4000 then f_turb
         else if x \<le> 2000 then f_lam
         else let mean = f_lam + ((x - 2000) / 2000) * (f_turb - f_lam)
              in mean + z * (0.2 * mean))"

subsection \<open>The loop traversal in the words of the specification\<close>






subsection \<open>Frames\<close>

text \<open>
  A pipe through which fluid moves: the divisions of \<open>Re\<close>, \<open>FrictionFactor\<close> and
  \<open>frictionHeadLoss\<close> are defined.
\<close>

definition flows :: "Pipe \<Rightarrow> bool" where
  "flows p \<longleftrightarrow> mu (fluid p) \<noteq> 0 \<and> rho (fluid p) \<noteq> 0 \<and> vel p \<noteq> 0 \<and> diameter p \<noteq> 0"

text \<open>Two stores that differ at most in cached Reynolds numbers of pipes and in the generator.\<close>

definition reynolds_only :: "state \<Rightarrow> state \<Rightarrow> bool" where
  "reynolds_only s s' \<longleftrightarrow>
     (\<forall>a. \<exists>x. pipe_obj s' a = (pipe_obj s a)\<lparr>reynolds := x\<rparr>)
     \<and> node_obj s' = node_obj s \<and> loop_obj s' = loop_obj s \<and> list_obj s' = list_obj s"

text \<open>Two stores that differ at most in the flows of pipes.\<close>

definition flowQ_only :: "state \<Rightarrow> state \<Rightarrow> bool" where
  "flowQ_only s s' \<longleftrightarrow>
     (\<forall>a. \<exists>x. pipe_obj s' a = (pipe_obj s a)\<lparr>flowQ := x\<rparr>)
     \<and> node_obj s' = node_obj s \<and> loop_obj s' = loop_obj s \<and> list_obj s' = list_obj s
     \<and> gen s' = gen s"

subsection \<open>Example objects\<close>

text \<open>
  Three pipes as their constructor leaves them: the pipe \<open>a-b\<close> of \<^verbatim>\<open>main\<close>
  (\<^verbatim>\<open>Pipe('a', 'b', 250, 300, 0.00025, water)\<close>, turbulent), a pipe of a viscous fluid
  (\<^verbatim>\<open>Pipe('a', 'c', 100, 200, 0.00025, Fluid(1, 1000))\<close>, laminar) and a wide pipe
  (\<^verbatim>\<open>Pipe('c', 'b', 100, 5000, 0.00025, water)\<close>, in the transition regime).
\<close>

definition pipe_ab :: Pipe where
  "pipe_ab = \<lparr>startNode = ''a'', endNode = ''b'', pipe_length = 250, diameter = 0.3,
     roughness = 0.00025, fluid = water, area = pi * 0.15 ^ 2, flowQ = 10,
     vel = (10 / 1000) / (pi * 0.15 ^ 2),
     reynolds = (1000 * ((10 / 1000) / (pi * 0.15 ^ 2)) * 0.3) / 0.00089\<rparr>"

definition oil :: Fluid where
  "oil = \<lparr>mu = 1, rho = 1000, nu = 1 / 1000\<rparr>"

definition pipe_laminar :: Pipe where
  "pipe_laminar = \<lparr>startNode = ''a'', endNode = ''c'', pipe_length = 100, diameter = 0.2,
     roughness = 0.00025, fluid = oil, area = pi * 0.1 ^ 2, flowQ = 10,
     vel = (10 / 1000) / (pi * 0.1 ^ 2),
     reynolds = (1000 * ((10 / 1000) / (pi * 0.1 ^ 2)) * 0.2) / 1\<rparr>"

definition pipe_transition :: Pipe where
  "pipe_transition = \<lparr>startNode = ''b'', endNode = ''c'', pipe_length = 100, diameter = 5,
     roughness = 0.00025, fluid = water, area = pi * 2.5 ^ 2, flowQ = 10,
     vel = (10 / 1000) / (pi * 2.5 ^ 2),
     reynolds = (1000 * ((10 / 1000) / (pi * 2.5 ^ 2)) * 5) / 0.00089\<rparr>"

text \<open>
  Stand-ins for the two library services in closed examples: a scalar root finder that
  returns its initial guess, and a generator whose deviates are all \<open>z\<close>.
\<close>

definition guess_solver :: solver1 where
  "guess_solver f x0 = x0"

definition constant_gen :: "real \<Rightarrow> rng" where
  "constant_gen z n = z"

text \<open>
  A stand-in for the vector root finder: it evaluates the residual once, at the initial
  guess, and returns the guess; an error of the residual is the error of the solve.
\<close>

definition one_evaluation :: solverN where
  "one_evaluation F x0 s = (case F x0 s of Inl e \<Rightarrow> Inl e | Inr (r, s') \<Rightarrow> Inr (x0, s'))"

text \<open>
  The head loss of \<open>frictionHeadLoss\<close> for a given friction factor, and the blended mean
  of the transition regime at the cached Reynolds number of a pipe.
\<close>

definition darcy_weisbach :: "real \<Rightarrow> Pipe \<Rightarrow> real" where
  "darcy_weisbach ff p = (ff * pipe_length p / diameter p) * ((vel p) ^ 2 / (2 * 9.81))"

definition transition_mean :: "solver1 \<Rightarrow> Pipe \<Rightarrow> real" where
  "transition_mean solve p =
     64 / reynolds p
     + ((reynolds p - 2000) / 2000) * (CB solve (roughness p / diameter p) (reynolds p) - 64 / reynolds p)"

text \<open>
  A network in the store: the triangle of the three example pipes (references 0, 1, 2),
  its three nodes with their pipe lists (list objects 10, 11, 12), the loop
  \<open>a-b, b-c, a-c\<close> (list object 13), and a \<^verbatim>\<open>PipeNetwork()\<close> built with the default lists
  (list objects 2, 3, 4), as \<^verbatim>\<open>main\<close> builds its network. \<open>unbuilt_net\<close> is a network with
  the same pipes that was given two empty lists of loops and nodes (list objects 14 and
  15) and on which \<^verbatim>\<open>buildNodes\<close> has not been called.
\<close>

definition example_store :: state where
  "example_store =
     \<lparr>pipe_obj = (\<lambda>_. pipe_ab)(1 := pipe_laminar, 2 := pipe_transition),
      node_obj = (\<lambda>_. Node_init ''a'' (Some 10) 30)
                   (1 := Node_init ''b'' (Some 11) 0, 2 := Node_init ''c'' (Some 12) (- 30)),
      loop_obj = (\<lambda>_. Loop_init ''A'' (Some 13)),
      list_obj = (\<lambda>_. [])(2 := [0, 1, 2], 3 := [0], 4 := [0, 1, 2],
                   10 := [0, 1], 11 := [0, 2], 12 := [1, 2], 13 := [0, 2, 1]),
      gen = constant_gen 0\<rparr>"

definition example_net :: PipeNetwork where
  "example_net = PipeNetwork_init None None None water"

definition unbuilt_net :: PipeNetwork where
  "unbuilt_net = PipeNetwork_init None (Some 14) (Some 15) water"

section \<open>Properties\<close>

subsection \<open>What the pipe methods change\<close>

lemma Re_frame: "Re_pipe p = Inr (x, p') \<Longrightarrow> p' = p\<lparr>reynolds := x\<rparr>"
  by (auto simp: Re_pipe_def Let_def split: if_splits)

lemma Re_value:
  "Re_pipe p = Inr (x, p') \<Longrightarrow> x = rho (fluid p) * vel p * diameter p / mu (fluid p)"
  by (auto simp: Re_pipe_def Let_def split: if_splits)

lemma V_frame: "V p = Inr (v, p') \<Longrightarrow> p' = p\<lparr>vel := v\<rparr>"
  by (auto simp: V_def Let_def split: if_splits)

lemma FrictionFactor_frame:
  "FrictionFactor solve p g = Inr (f, p', g') \<Longrightarrow> \<exists>x. p' = p\<lparr>reynolds := x\<rparr>"
  by (auto simp: FrictionFactor_def Let_def lam_def normalvariate_def dest!: Re_frame
      split: sum.splits if_splits prod.splits)

lemma frictionHeadLoss_frame:
  "frictionHeadLoss solve p g = Inr (h, p', g') \<Longrightarrow> \<exists>x. p' = p\<lparr>reynolds := x\<rparr>"
  by (auto simp: frictionHeadLoss_def dest!: FrictionFactor_frame
      split: sum.splits if_splits prod.splits)

lemma getFlowHeadLoss_frame:
  "getFlowHeadLoss solve p n g = Inr (h, p', g') \<Longrightarrow> \<exists>x. p' = p\<lparr>reynolds := x\<rparr>"
  by (auto simp: getFlowHeadLoss_def Let_def dest!: frictionHeadLoss_frame
      split: sum.splits if_splits prod.splits)

lemma pipe_op_endpoints:
  "pipe_op p p' \<Longrightarrow> startNode p' = startNode p \<and> endNode p' = endNode p"
  by (induction rule: pipe_op.induct)
     (auto dest!: V_frame Re_frame FrictionFactor_frame frictionHeadLoss_frame
        getFlowHeadLoss_frame)

lemma pipe_ops_endpoints:
  "pipe_op\<^sup>*\<^sup>* p p' \<Longrightarrow> startNode p' = startNode p \<and> endNode p' = endNode p"
  by (induction rule: rtranclp_induct) (auto dest: pipe_op_endpoints)

lemma pipe_ops_Name: "pipe_op\<^sup>*\<^sup>* p p' \<Longrightarrow> Name p' = Name p"
  by (simp add: Name_def pipe_ops_endpoints)

subsection \<open>The constructor of a pipe\<close>

lemma Pipe_init_endpoints:
  "Pipe_init Start End L D r fl = Inr p \<Longrightarrow>
     startNode p = min Start End \<and> endNode p = max Start End"
  by (auto simp: Pipe_init_def Let_def V_def Re_pipe_def split: if_splits)

lemma Pipe_init_Inr:
  "D \<noteq> 0 \<Longrightarrow> mu fl \<noteq> 0 \<Longrightarrow> \<exists>p. Pipe_init S E L D r fl = Inr p"
  by (simp add: Pipe_init_def V_def Re_pipe_def Let_def)

lemma min_le_max_name: "min Start End \<le> max Start (End::string)"
  by (rule order_trans [OF min.cobounded1 max.cobounded1])

lemma min_less_max_name: "Start \<noteq> End \<Longrightarrow> min Start End < max Start (End::string)"
proof (cases "Start \<le> End")
  case True
  assume "Start \<noteq> End"
  with True have "Start < End" by (rule le_neq_trans)
  with True show ?thesis by (simp add: min_def max_def)
next
  case False
  then have "End < Start" by (simp add: not_le)
  with False show ?thesis by (simp add: min_def max_def)
qed

lemma min_max_names: "{min Start End, max Start (End::string)} = {Start, End}"
  by (cases "Start \<le> End") (simp_all add: min_def max_def insert_commute)

text \<open>
  C9 (as the program has it). A pipe built from two endpoint names in either order has
  \<open>startNode \<le> endNode\<close>, strictly when the two names differ; its endpoints are the two
  names given; \<open>Name\<close> is \<open>startNode-endNode\<close>; and no sequence of operations of the
  program on the pipe changes the endpoints or the name.
\<close>

theorem Pipe_endpoints_canonical:
  assumes "Pipe_init Start End L D r fl = Inr p"
  shows "startNode p \<le> endNode p
    \<and> (Start \<noteq> End \<longrightarrow> startNode p < endNode p)
    \<and> {startNode p, endNode p} = {Start, End}
    \<and> Name p = startNode p @ ''-'' @ endNode p
    \<and> (\<forall>p'. pipe_op\<^sup>*\<^sup>* p p' \<longrightarrow>
          startNode p' = startNode p \<and> endNode p' = endNode p \<and> Name p' = Name p)"
proof -
  from assms have e: "startNode p = min Start End" "endNode p = max Start End"
    by (simp_all add: Pipe_init_endpoints)
  have 1: "startNode p \<le> endNode p"
    unfolding e by (rule min_le_max_name)
  have 2: "Start \<noteq> End \<longrightarrow> startNode p < endNode p"
    unfolding e by (simp add: min_less_max_name)
  have 3: "{startNode p, endNode p} = {Start, End}"
    unfolding e by (rule min_max_names)
  have 4: "\<forall>p'. pipe_op\<^sup>*\<^sup>* p p' \<longrightarrow>
          startNode p' = startNode p \<and> endNode p' = endNode p \<and> Name p' = Name p"
    by (simp add: pipe_ops_endpoints pipe_ops_Name)
  have 5: "Name p = startNode p @ ''-'' @ endNode p"
    by (simp add: Name_def)
  from 1 2 3 4 5 show ?thesis by blast
qed

text \<open>
  The example of the specification: \<^verbatim>\<open>Pipe('b', 'a', ...)\<close> is the pipe \<open>a-b\<close>, and it
  still is after a flow has been written into it.
\<close>

theorem Pipe_endpoints_canonical_witness:
  "startNode (projr (Pipe_init ''b'' ''a'' 100 200 0.00025 water)) = ''a''
   \<and> endNode (projr (Pipe_init ''b'' ''a'' 100 200 0.00025 water)) = ''b''
   \<and> Name (projr (Pipe_init ''b'' ''a'' 100 200 0.00025 water)) = ''a-b''
   \<and> startNode (projr (Pipe_init ''b'' ''a'' 100 200 0.00025 water))
       < endNode (projr (Pipe_init ''b'' ''a'' 100 200 0.00025 water))
   \<and> Name ((projr (Pipe_init ''b'' ''a'' 100 200 0.00025 water))\<lparr>flowQ := 20\<rparr>) = ''a-b''"
proof -
  have "\<exists>p. Pipe_init ''b'' ''a'' 100 200 0.00025 water = Inr p"
    by (rule Pipe_init_Inr) (simp_all add: water_def)
  then obtain p where h: "Pipe_init ''b'' ''a'' 100 200 0.00025 water = Inr p"
    by blast
  have e: "startNode p = ''a''" "endNode p = ''b''"
    using Pipe_init_endpoints [OF h] by simp_all
  have w: "pipe_op\<^sup>*\<^sup>* p (p\<lparr>flowQ := 20\<rparr>)"
    by (rule r_into_rtranclp) (rule op_write_Q)
  have "Name p = ''a-b''" "startNode p < endNode p" "Name (p\<lparr>flowQ := 20\<rparr>) = Name p"
    using Pipe_endpoints_canonical [OF h] e w by simp_all
  then show ?thesis unfolding h using e by simp
qed


text \<open>
  C9 as stated fails when the two names are equal: \<^verbatim>\<open>Pipe('a', 'a')\<close> is constructed
  without error and its start node is not below its end node.
\<close>

theorem equal_endpoints_counterexample:
  "\<not> isl (Pipe_init ''a'' ''a'' 100 200 0.00025 water)
   \<and> \<not> startNode (projr (Pipe_init ''a'' ''a'' 100 200 0.00025 water))
        < endNode (projr (Pipe_init ''a'' ''a'' 100 200 0.00025 water))"
proof -
  have "\<exists>p. Pipe_init ''a'' ''a'' 100 200 0.00025 water = Inr p"
    by (rule Pipe_init_Inr) (simp_all add: water_def)
  then obtain p where h: "Pipe_init ''a'' ''a'' 100 200 0.00025 water = Inr p"
    by blast
  have e: "startNode p = ''a''" "endNode p = ''a''"
    using Pipe_init_endpoints [OF h] by simp_all
  show ?thesis unfolding h using e by simp
qed

subsection \<open>The example objects\<close>

lemma pi_ge_three: "3 \<le> pi"
proof -
  have "sin (pi / 6) \<le> pi / 6"
    by (rule sin_x_le_x) simp
  then show ?thesis by (simp add: sin_30)
qed

lemma pipe_ab_init: "Pipe_init ''a'' ''b'' 250 300 0.00025 water = Inr pipe_ab"
  by (simp add: Pipe_init_def V_def Re_pipe_def Let_def water_def pipe_ab_def)

lemma pipe_laminar_init: "Pipe_init ''a'' ''c'' 100 200 0.00025 oil = Inr pipe_laminar"
  by (simp add: Pipe_init_def V_def Re_pipe_def Let_def oil_def pipe_laminar_def)

lemma pipe_transition_init: "Pipe_init ''c'' ''b'' 100 5000 0.00025 water = Inr pipe_transition"
  by (simp add: Pipe_init_def V_def Re_pipe_def Let_def water_def pipe_transition_def)

lemma oil_init: "Fluid_init 1 1000 = Inr oil"
  by (simp add: Fluid_init_def oil_def)

lemma water_init: "Fluid_init 0.00089 1000 = Inr water"
  by (simp add: Fluid_init_def water_def)

lemma pipe_ab_Re: "Re_pipe pipe_ab = Inr (reynolds pipe_ab, pipe_ab)"
  by (simp add: Re_pipe_def Let_def pipe_ab_def water_def)

lemma pipe_ab_turbulent: "4000 \<le> reynolds pipe_ab"
  using pi_less_4 pi_gt_zero by (simp add: pipe_ab_def field_simps)

lemma pipe_laminar_Re: "Re_pipe pipe_laminar = Inr (reynolds pipe_laminar, pipe_laminar)"
  by (simp add: Re_pipe_def Let_def pipe_laminar_def oil_def)

lemma pipe_laminar_laminar: "0 < reynolds pipe_laminar \<and> reynolds pipe_laminar \<le> 2000"
  using pi_ge_three pi_gt_zero by (simp add: pipe_laminar_def field_simps)

lemma pipe_transition_Re:
  "Re_pipe pipe_transition = Inr (reynolds pipe_transition, pipe_transition)"
  by (simp add: Re_pipe_def Let_def pipe_transition_def water_def)

lemma pipe_transition_transition:
  "2000 < reynolds pipe_transition \<and> reynolds pipe_transition < 4000"
  using pi_ge_three pi_less_4 pi_gt_zero by (simp add: pipe_transition_def field_simps)


lemma constant_gen_tail: "(\<lambda>n. constant_gen z (Suc n)) = constant_gen z"
  by (rule ext) (simp add: constant_gen_def)

lemma example_diameters:
  "diameter pipe_ab = 0.3" "diameter pipe_laminar = 0.2" "diameter pipe_transition = 5"
  by (simp_all add: pipe_ab_def pipe_laminar_def pipe_transition_def)

lemma pipe_ab_stopped:
  "V (pipe_ab\<lparr>flowQ := 0\<rparr>) = Inr (0, pipe_ab\<lparr>flowQ := 0, vel := 0\<rparr>)"
  by (simp add: V_def pipe_ab_def)

lemma pipe_ab_stopped_Re:
  "Re_pipe (pipe_ab\<lparr>flowQ := 0, vel := 0\<rparr>)
     = Inr (0, pipe_ab\<lparr>flowQ := 0, vel := 0, reynolds := 0\<rparr>)"
  by (simp add: Re_pipe_def pipe_ab_def water_def)

lemma pipe_ab_reversed:
  "V (pipe_ab\<lparr>flowQ := - 10\<rparr>)
     = Inr (- vel pipe_ab, pipe_ab\<lparr>flowQ := - 10, vel := - vel pipe_ab\<rparr>)"
  by (simp add: V_def Let_def pipe_ab_def)

lemma pipe_ab_reversed_Re:
  "Re_pipe (pipe_ab\<lparr>flowQ := - 10, vel := - vel pipe_ab\<rparr>)
     = Inr (- reynolds pipe_ab,
            pipe_ab\<lparr>flowQ := - 10, vel := - vel pipe_ab, reynolds := - reynolds pipe_ab\<rparr>)"
  by (simp add: Re_pipe_def Let_def pipe_ab_def water_def)

subsection \<open>The friction factor\<close>

lemma cb_spec: "cb rr x = (\<lambda>f. 1 / sqrt f - (- 2 * log 10 (rr / 3.7 + 2.51 / (x * sqrt f))))"
  by (rule ext) (simp add: cb_def)

text \<open>
  C4. \<open>FrictionFactor\<close> implements the three-regime policy on the Reynolds number \<open>x\<close>
  that \<open>Re\<close> returns and the relative roughness \<open>roughness / diameter\<close>: the root finder's
  result on the Colebrook-White relation from the guess 0.01 for \<open>x \<ge> 4000\<close>, \<open>64 / x\<close>
  for \<open>x \<le> 2000\<close> (so 0.032 at 2000), and for \<open>2000 < x < 4000\<close> the blended mean plus
  0.2 times the mean times the next deviate of the generator, which is consumed. The
  divisions \<^verbatim>\<open>self.r / self.diameter\<close> and \<^verbatim>\<open>64 / Re\<close> raise \<^verbatim>\<open>ZeroDivisionError\<close> when
  the diameter or the Reynolds number is zero.
\<close>

theorem FrictionFactor_three_regimes:
  "FrictionFactor solve p g =
     (case Re_pipe p of
        Inl e \<Rightarrow> Inl e
      | Inr (x, p') \<Rightarrow>
          if x = 0 \<or> diameter p = 0 then Inl ZeroDivisionError
          else Inr (frictionFactor_spec solve x (roughness p / diameter p) (g 0), p',
                    if 2000 < x \<and> x < 4000 then (\<lambda>n. g (Suc n)) else g))
   \<and> frictionFactor_spec solve 2000 rr z = 0.032"
proof
  show "frictionFactor_spec solve 2000 rr z = 0.032"
    by (simp add: frictionFactor_spec_def Let_def)
next
  show "FrictionFactor solve p g =
     (case Re_pipe p of
        Inl e \<Rightarrow> Inl e
      | Inr (x, p') \<Rightarrow>
          if x = 0 \<or> diameter p = 0 then Inl ZeroDivisionError
          else Inr (frictionFactor_spec solve x (roughness p / diameter p) (g 0), p',
                    if 2000 < x \<and> x < 4000 then (\<lambda>n. g (Suc n)) else g))"
  proof (cases "Re_pipe p")
    case (Inl e)
    then show ?thesis by (simp add: FrictionFactor_def)
  next
    case (Inr r)
    obtain x p' where r: "r = (x, p')" by (cases r)
    have p': "p' = p\<lparr>reynolds := x\<rparr>" using Inr r by (simp add: Re_frame)
    show ?thesis
      using Inr r p'
      by (simp add: FrictionFactor_def frictionFactor_spec_def CB_def cb_spec lam_def
          normalvariate_def Let_def)
  qed
qed


text \<open>The policy at one pipe of each regime.\<close>

theorem FrictionFactor_three_regimes_examples:
  "FrictionFactor guess_solver pipe_ab (constant_gen 1) = Inr (0.01, pipe_ab, constant_gen 1)
   \<and> FrictionFactor guess_solver pipe_laminar (constant_gen 1)
       = Inr (64 / reynolds pipe_laminar, pipe_laminar, constant_gen 1)
   \<and> FrictionFactor guess_solver pipe_transition (constant_gen 1)
       = Inr (1.2 * (64 / reynolds pipe_transition
                + ((reynolds pipe_transition - 2000) / 2000)
                  * (0.01 - 64 / reynolds pipe_transition)),
              pipe_transition, constant_gen 1)"
proof (intro conjI)
  show "FrictionFactor guess_solver pipe_ab (constant_gen 1) = Inr (0.01, pipe_ab, constant_gen 1)"
    using FrictionFactor_three_regimes [of guess_solver pipe_ab "constant_gen 1"]
      pipe_ab_turbulent
    by (simp add: pipe_ab_Re example_diameters frictionFactor_spec_def guess_solver_def)
  show "FrictionFactor guess_solver pipe_laminar (constant_gen 1)
       = Inr (64 / reynolds pipe_laminar, pipe_laminar, constant_gen 1)"
    using FrictionFactor_three_regimes [of guess_solver pipe_laminar "constant_gen 1"]
      pipe_laminar_laminar
    by (simp add: pipe_laminar_Re example_diameters frictionFactor_spec_def guess_solver_def)
  show "FrictionFactor guess_solver pipe_transition (constant_gen 1)
       = Inr (1.2 * (64 / reynolds pipe_transition
                + ((reynolds pipe_transition - 2000) / 2000)
                  * (0.01 - 64 / reynolds pipe_transition)),
              pipe_transition, constant_gen 1)"
  proof -
    let ?x = "reynolds pipe_transition"
    have x: "2000 < ?x" "?x < 4000"
      using pipe_transition_transition by simp_all
    have spec: "frictionFactor_spec guess_solver ?x rr 1
        = 1.2 * (64 / ?x + ((?x - 2000) / 2000) * (0.01 - 64 / ?x))" for rr
      using x by (simp add: frictionFactor_spec_def guess_solver_def Let_def field_simps)
    have ff: "FrictionFactor guess_solver pipe_transition (constant_gen 1)
        = Inr (frictionFactor_spec guess_solver ?x
                 (roughness pipe_transition / diameter pipe_transition) 1,
               pipe_transition, constant_gen 1)"
      using FrictionFactor_three_regimes [of guess_solver pipe_transition "constant_gen 1"] x
      by (simp add: pipe_transition_Re example_diameters constant_gen_tail)
         (simp add: constant_gen_def)
    show ?thesis unfolding ff spec by (rule refl)
  qed
qed

text \<open>
  The guess 0.01 is not a root of the Colebrook residual of the pipe \<open>a-b\<close>: a root
  finder that returns it has not converged.
\<close>

lemma sqrt_hundredth: "sqrt (1 / 100 :: real) = 1 / 10"
  by (rule real_sqrt_unique) (simp_all add: power2_eq_square)

lemma log10_small: "log 10 (1 / 100000) = - 5"
proof -
  have "log 10 ((10::real) ^ 5) = 5" using log_nat_power [of 10 10 5] by simp
  then have "log 10 (100000::real) = 5" by simp
  then show ?thesis by (simp add: log_divide_pos)
qed

lemma cb_guess_not_root:
  "0 < cb (roughness pipe_ab / diameter pipe_ab) (reynolds pipe_ab) 0.01"
proof -
  let ?x = "reynolds pipe_ab"
  let ?y = "roughness pipe_ab / diameter pipe_ab / 3.7 + 2.51 / (?x * sqrt 0.01)"
  have x: "0 < ?x" using pipe_ab_turbulent by simp
  have "0 < 2.51 / (?x * sqrt 0.01)" using x by (simp add: sqrt_hundredth)
  moreover have "1 / 100000 < roughness pipe_ab / diameter pipe_ab / 3.7"
    by (simp add: pipe_ab_def)
  ultimately have y: "1 / 100000 < ?y" by linarith
  then have "log 10 (1 / 100000) < log 10 ?y"
    by (subst log_less_cancel_iff) simp_all
  then have l: "- 5 < log 10 ?y" by (simp only: log10_small)
  have "cb (roughness pipe_ab / diameter pipe_ab) ?x 0.01 = 10 + 2 * log 10 ?y"
    by (simp add: cb_def sqrt_hundredth)
  then show ?thesis using l by linarith
qed


text \<open>
  C7 (as the program has it). \<open>FrictionFactor\<close> has no fallback and keeps no record: for
  every root finder \<open>solve\<close>, whatever it returns, the result is fixed by the Reynolds
  number \<open>x\<close> alone. When \<open>x\<close> is negative, or positive and at most 2000, it is the
  laminar closed form \<open>64 / x\<close>; when \<open>x\<close> is zero the evaluation raises
  \<^verbatim>\<open>ZeroDivisionError\<close>, and so do \<open>frictionHeadLoss\<close> and \<open>getFlowHeadLoss\<close>; when
  \<open>x \<ge> 4000\<close> it is the value the root finder returned for the Colebrook residual from
  the guess 0.01, used as it is; between 2000 and 4000 it is the sample around the blend
  of that value and \<open>64 / x\<close>. The only field of the pipe that is written is \<open>reynolds\<close>,
  and the generator moves only in the transition regime.
\<close>

theorem FrictionFactor_no_fallback:
  assumes "Re_pipe p = Inr (x, p')"
  shows "(x < 0 \<longrightarrow> FrictionFactor solve p g = Inr (64 / x, p', g))
    \<and> (x = 0 \<longrightarrow> FrictionFactor solve p g = Inl ZeroDivisionError
          \<and> frictionHeadLoss solve p g = Inl ZeroDivisionError
          \<and> getFlowHeadLoss solve p n g = Inl ZeroDivisionError)
    \<and> (0 < x \<and> x \<le> 2000 \<longrightarrow> FrictionFactor solve p g = Inr (64 / x, p', g))
    \<and> (2000 < x \<and> x < 4000 \<longrightarrow>
          FrictionFactor solve p g
            = Inr ((64 / x + ((x - 2000) / 2000)
                      * (solve (cb (roughness p / diameter p) x) 0.01 - 64 / x))
                   + g 0 * (0.2 * (64 / x + ((x - 2000) / 2000)
                      * (solve (cb (roughness p / diameter p) x) 0.01 - 64 / x))),
                   p', \<lambda>n. g (Suc n)))
    \<and> (4000 \<le> x \<longrightarrow>
          FrictionFactor solve p g = Inr (solve (cb (roughness p / diameter p) x) 0.01, p', g))
    \<and> p' = p\<lparr>reynolds := x\<rparr>"
proof -
  have p': "p' = p\<lparr>reynolds := x\<rparr>" using assms by (rule Re_frame)
  have xv: "x = rho (fluid p) * vel p * diameter p / mu (fluid p)"
    using assms by (rule Re_value)
  have d: "x \<noteq> 0 \<Longrightarrow> diameter p \<noteq> 0" using xv by auto
  have neg: "x < 0 \<longrightarrow> FrictionFactor solve p g = Inr (64 / x, p', g)"
    using assms p' d by (simp add: FrictionFactor_def lam_def Let_def)
  have zero: "x = 0 \<longrightarrow> FrictionFactor solve p g = Inl ZeroDivisionError"
    using assms p' by (simp add: FrictionFactor_def lam_def Let_def)
  then have zero': "x = 0 \<longrightarrow> frictionHeadLoss solve p g = Inl ZeroDivisionError
          \<and> getFlowHeadLoss solve p n g = Inl ZeroDivisionError"
    by (simp add: frictionHeadLoss_def getFlowHeadLoss_def Let_def)
  have lami: "0 < x \<and> x \<le> 2000 \<longrightarrow> FrictionFactor solve p g = Inr (64 / x, p', g)"
    using assms p' d by (simp add: FrictionFactor_def lam_def Let_def)
  have tran: "2000 < x \<and> x < 4000 \<longrightarrow>
          FrictionFactor solve p g
            = Inr ((64 / x + ((x - 2000) / 2000)
                      * (solve (cb (roughness p / diameter p) x) 0.01 - 64 / x))
                   + g 0 * (0.2 * (64 / x + ((x - 2000) / 2000)
                      * (solve (cb (roughness p / diameter p) x) 0.01 - 64 / x))),
                   p', \<lambda>n. g (Suc n))"
    using assms p' d
    by (simp add: FrictionFactor_def lam_def Let_def CB_def normalvariate_def)
  have turb: "4000 \<le> x \<longrightarrow>
          FrictionFactor solve p g = Inr (solve (cb (roughness p / diameter p) x) 0.01, p', g)"
    using assms p' d by (simp add: FrictionFactor_def Let_def CB_def)
  from neg zero zero' lami tran turb p' show ?thesis by blast
qed

text \<open>
  One pipe for each case: stopped, reversed, laminar, transitional, and the turbulent pipe
  \<open>a-b\<close>, where the returned factor 0.01 is the root finder's result although it is not
  a root.
\<close>

theorem FrictionFactor_no_fallback_witness:
  "FrictionFactor guess_solver (pipe_ab\<lparr>flowQ := 0, vel := 0\<rparr>) (constant_gen 0)
     = Inl ZeroDivisionError
   \<and> getFlowHeadLoss guess_solver (pipe_ab\<lparr>flowQ := 0, vel := 0\<rparr>) ''a'' (constant_gen 0)
     = Inl ZeroDivisionError
   \<and> FrictionFactor guess_solver (pipe_ab\<lparr>flowQ := - 10, vel := - vel pipe_ab\<rparr>) (constant_gen 0)
     = Inr (64 / (- reynolds pipe_ab),
            pipe_ab\<lparr>flowQ := - 10, vel := - vel pipe_ab, reynolds := - reynolds pipe_ab\<rparr>,
            constant_gen 0)
   \<and> FrictionFactor guess_solver pipe_laminar (constant_gen 0)
     = Inr (64 / reynolds pipe_laminar, pipe_laminar, constant_gen 0)
   \<and> FrictionFactor guess_solver pipe_transition (constant_gen 1)
     = Inr ((64 / reynolds pipe_transition
              + ((reynolds pipe_transition - 2000) / 2000) * (0.01 - 64 / reynolds pipe_transition))
            + 1 * (0.2 * (64 / reynolds pipe_transition
              + ((reynolds pipe_transition - 2000) / 2000)
                * (0.01 - 64 / reynolds pipe_transition))),
            pipe_transition, constant_gen 1)
   \<and> cb (roughness pipe_ab / diameter pipe_ab) (reynolds pipe_ab) 0.01 \<noteq> 0
   \<and> FrictionFactor guess_solver pipe_ab (constant_gen 0) = Inr (0.01, pipe_ab, constant_gen 0)"
proof (intro conjI)
  show "FrictionFactor guess_solver (pipe_ab\<lparr>flowQ := 0, vel := 0\<rparr>) (constant_gen 0)
     = Inl ZeroDivisionError"
    using FrictionFactor_no_fallback [OF pipe_ab_stopped_Re, of guess_solver "constant_gen 0"]
    by simp
  show "getFlowHeadLoss guess_solver (pipe_ab\<lparr>flowQ := 0, vel := 0\<rparr>) ''a'' (constant_gen 0)
     = Inl ZeroDivisionError"
    using FrictionFactor_no_fallback [OF pipe_ab_stopped_Re, of guess_solver "constant_gen 0" "''a''"]
    by simp
  show "FrictionFactor guess_solver (pipe_ab\<lparr>flowQ := - 10, vel := - vel pipe_ab\<rparr>) (constant_gen 0)
     = Inr (64 / (- reynolds pipe_ab),
            pipe_ab\<lparr>flowQ := - 10, vel := - vel pipe_ab, reynolds := - reynolds pipe_ab\<rparr>,
            constant_gen 0)"
    using FrictionFactor_no_fallback [OF pipe_ab_reversed_Re, of guess_solver "constant_gen 0"]
      pipe_ab_turbulent
    by simp
  show "FrictionFactor guess_solver pipe_laminar (constant_gen 0)
     = Inr (64 / reynolds pipe_laminar, pipe_laminar, constant_gen 0)"
    using FrictionFactor_no_fallback [OF pipe_laminar_Re, of guess_solver "constant_gen 0"]
      pipe_laminar_laminar
    by simp
  show "FrictionFactor guess_solver pipe_transition (constant_gen 1)
     = Inr ((64 / reynolds pipe_transition
              + ((reynolds pipe_transition - 2000) / 2000) * (0.01 - 64 / reynolds pipe_transition))
            + 1 * (0.2 * (64 / reynolds pipe_transition
              + ((reynolds pipe_transition - 2000) / 2000)
                * (0.01 - 64 / reynolds pipe_transition))),
            pipe_transition, constant_gen 1)"
  proof -
    have x: "2000 < reynolds pipe_transition \<and> reynolds pipe_transition < 4000"
      using pipe_transition_transition by simp
    have c: "guess_solver f 0.01 = 0.01" for f
      by (simp add: guess_solver_def)
    have g: "constant_gen 1 0 = 1" by (simp add: constant_gen_def)
    from FrictionFactor_no_fallback [OF pipe_transition_Re, of guess_solver "constant_gen 1"] x
    have "FrictionFactor guess_solver pipe_transition (constant_gen 1)
        = Inr ((64 / reynolds pipe_transition + ((reynolds pipe_transition - 2000) / 2000)
                  * (guess_solver (cb (roughness pipe_transition / diameter pipe_transition)
                       (reynolds pipe_transition)) 0.01 - 64 / reynolds pipe_transition))
               + constant_gen 1 0 * (0.2 * (64 / reynolds pipe_transition
                  + ((reynolds pipe_transition - 2000) / 2000)
                  * (guess_solver (cb (roughness pipe_transition / diameter pipe_transition)
                       (reynolds pipe_transition)) 0.01 - 64 / reynolds pipe_transition))),
               pipe_transition, \<lambda>n. constant_gen 1 (Suc n))"
      by blast
    then show ?thesis unfolding c g constant_gen_tail .
  qed
  show "cb (roughness pipe_ab / diameter pipe_ab) (reynolds pipe_ab) 0.01 \<noteq> 0"
    using cb_guess_not_root by simp
  show "FrictionFactor guess_solver pipe_ab (constant_gen 0) = Inr (0.01, pipe_ab, constant_gen 0)"
    using FrictionFactor_no_fallback [OF pipe_ab_Re, of guess_solver "constant_gen 0"]
      pipe_ab_turbulent
    by (simp add: guess_solver_def)
qed

text \<open>
  C7 as stated fails at a pipe whose flow is zero once \<^verbatim>\<open>V\<close> has run: the Reynolds
  number is zero and \<open>FrictionFactor\<close> raises \<^verbatim>\<open>ZeroDivisionError\<close> instead of returning
  an estimate.
\<close>

theorem zero_Re_aborts_counterexample:
  "V (pipe_ab\<lparr>flowQ := 0\<rparr>) = Inr (0, pipe_ab\<lparr>flowQ := 0, vel := 0\<rparr>)
   \<and> Re_pipe (pipe_ab\<lparr>flowQ := 0, vel := 0\<rparr>)
        = Inr (0, pipe_ab\<lparr>flowQ := 0, vel := 0, reynolds := 0\<rparr>)
   \<and> FrictionFactor guess_solver (pipe_ab\<lparr>flowQ := 0, vel := 0\<rparr>) (constant_gen 0)
        = Inl ZeroDivisionError"
  by (simp add: pipe_ab_stopped pipe_ab_stopped_Re FrictionFactor_def lam_def)

text \<open>
  C6 (the program at a reversed flow). After \<^verbatim>\<open>Q = -10\<close> and a call of \<^verbatim>\<open>V\<close>, the pipe
  \<open>a-b\<close> has a negative velocity, and \<open>Re\<close> returns a negative number, which is not the
  density times the speed times the diameter over the viscosity.
\<close>

theorem reversed_flow_negative_reynolds:
  "\<exists>v p' x p''. V (pipe_ab\<lparr>flowQ := - 10\<rparr>) = Inr (v, p') \<and> Re_pipe p' = Inr (x, p'')
     \<and> v < 0 \<and> x < 0 \<and> x \<noteq> rho (fluid p') * \<bar>v\<bar> * diameter p' / mu (fluid p')"
  by (simp add: V_def Re_pipe_def Let_def pipe_ab_def water_def)

subsection \<open>Frames of the traversal and of the flow assignment\<close>

lemma reynolds_same: "p = p\<lparr>reynolds := reynolds p\<rparr>"
  by simp

lemma reynolds_only_refl: "reynolds_only s s"
  unfolding reynolds_only_def using reynolds_same by blast

lemma reynolds_only_trans:
  assumes "reynolds_only s s'" and "reynolds_only s' s''"
  shows "reynolds_only s s''"
proof -
  have "\<exists>x. pipe_obj s'' a = (pipe_obj s a)\<lparr>reynolds := x\<rparr>" for a
  proof -
    obtain x where 1: "pipe_obj s' a = (pipe_obj s a)\<lparr>reynolds := x\<rparr>"
      using assms(1) unfolding reynolds_only_def by blast
    obtain y where 2: "pipe_obj s'' a = (pipe_obj s' a)\<lparr>reynolds := y\<rparr>"
      using assms(2) unfolding reynolds_only_def by blast
    show ?thesis unfolding 2 1 by (intro exI [of _ y]) simp
  qed
  then show ?thesis using assms unfolding reynolds_only_def by simp
qed

lemma reynolds_only_step:
  "reynolds_only s (s\<lparr>pipe_obj := (pipe_obj s)(a := (pipe_obj s a)\<lparr>reynolds := x\<rparr>), gen := g'\<rparr>)"
proof -
  have "\<exists>y. ((pipe_obj s)(a := (pipe_obj s a)\<lparr>reynolds := x\<rparr>)) b = (pipe_obj s b)\<lparr>reynolds := y\<rparr>" for b
  proof (cases "b = a")
    case True
    then show ?thesis by (intro exI [of _ x]) simp
  next
    case False
    then show ?thesis by (intro exI [of _ "reynolds (pipe_obj s b)"]) simp
  qed
  then show ?thesis unfolding reynolds_only_def by simp
qed

lemma FrictionFactor_succeeds:
  assumes "flows p"
  shows "\<exists>f x g'. FrictionFactor solve p g = Inr (f, p\<lparr>reynolds := x\<rparr>, g')"
  using assms
  by (auto simp: flows_def FrictionFactor_def Re_pipe_def lam_def Let_def normalvariate_def)

lemma getFlowHeadLoss_succeeds:
  assumes "flows p"
  shows "\<exists>h x g'. getFlowHeadLoss solve p n g = Inr (h, p\<lparr>reynolds := x\<rparr>, g')"
proof -
  obtain f x g' where ff: "FrictionFactor solve p g = Inr (f, p\<lparr>reynolds := x\<rparr>, g')"
    using FrictionFactor_succeeds [OF assms] by blast
  have "diameter p \<noteq> 0" using assms by (simp add: flows_def)
  then show ?thesis
    by (auto simp: getFlowHeadLoss_def frictionHeadLoss_def ff Let_def)
qed

lemma loop_traverse_frame:
  "loop_traverse solve as cur acc s = Inr (t, s') \<Longrightarrow> reynolds_only s s'"
proof (induction as arbitrary: cur acc s)
  case Nil
  then show ?case by (simp add: reynolds_only_refl)
next
  case (Cons a as)
  from Cons.prems obtain phl p' g' where
    g: "getFlowHeadLoss solve (pipe_obj s a) cur (gen s) = Inr (phl, p', g')"
    and r: "loop_traverse solve as (if cur \<noteq> endNode p' then endNode p' else startNode p')
             (acc + phl) (s\<lparr>pipe_obj := (pipe_obj s)(a := p'), gen := g'\<rparr>) = Inr (t, s')"
    by (auto split: sum.splits)
  from getFlowHeadLoss_frame [OF g] obtain x where p': "p' = (pipe_obj s a)\<lparr>reynolds := x\<rparr>"
    by blast
  have 1: "reynolds_only s (s\<lparr>pipe_obj := (pipe_obj s)(a := p'), gen := g'\<rparr>)"
    unfolding p' by (rule reynolds_only_step)
  from Cons.IH [OF r]
  have 2: "reynolds_only (s\<lparr>pipe_obj := (pipe_obj s)(a := p'), gen := g'\<rparr>) s'" .
  from 1 2 show ?case by (rule reynolds_only_trans)
qed

lemma flows_reynolds: "flows (p\<lparr>reynolds := x\<rparr>) = flows p"
  by (simp add: flows_def)

lemma reynolds_only_flows:
  assumes "reynolds_only s s'"
  shows "flows (pipe_obj s' a) = flows (pipe_obj s a)"
proof -
  obtain x where "pipe_obj s' a = (pipe_obj s a)\<lparr>reynolds := x\<rparr>"
    using assms unfolding reynolds_only_def by blast
  then show ?thesis by (simp add: flows_reynolds)
qed

lemma loop_traverse_succeeds:
  "\<forall>a\<in>set as. flows (pipe_obj s a) \<Longrightarrow> \<exists>t s'. loop_traverse solve as cur acc s = Inr (t, s')"
proof (induction as arbitrary: cur acc s)
  case Nil
  then show ?case by simp
next
  case (Cons a as)
  then have "flows (pipe_obj s a)" by simp
  from getFlowHeadLoss_succeeds [OF this] obtain h x g' where
    g: "getFlowHeadLoss solve (pipe_obj s a) cur (gen s)
          = Inr (h, (pipe_obj s a)\<lparr>reynolds := x\<rparr>, g')"
    by blast
  let ?s = "s\<lparr>pipe_obj := (pipe_obj s)(a := (pipe_obj s a)\<lparr>reynolds := x\<rparr>), gen := g'\<rparr>"
  have "\<forall>b\<in>set as. flows (pipe_obj ?s b)"
    using Cons.prems by (simp add: flows_reynolds)
  from Cons.IH [OF this] show ?case by (simp add: g)
qed


lemma getLoopHeadLoss_empty:
  "list_obj s (loop_pipes l) = [] \<Longrightarrow> getLoopHeadLoss solve l s = Inl IndexError"
  by (simp add: getLoopHeadLoss_def)

lemma getLoopHeadLoss_succeeds:
  assumes "list_obj s (loop_pipes l) \<noteq> []"
    and "\<forall>a\<in>set (list_obj s (loop_pipes l)). flows (pipe_obj s a)"
  shows "\<exists>t s'. getLoopHeadLoss solve l s = Inr (t, s')"
proof -
  obtain a as where c: "list_obj s (loop_pipes l) = a # as"
    using assms(1) by (cases "list_obj s (loop_pipes l)") auto
  have "\<forall>b\<in>set (a # as). flows (pipe_obj s b)" using assms(2) c by simp
  from loop_traverse_succeeds [OF this, of solve "startNode (pipe_obj s a)" 0]
  show ?thesis by (simp add: getLoopHeadLoss_def c)
qed

lemma getLoopHeadLoss_frame:
  "getLoopHeadLoss solve l s = Inr (t, s') \<Longrightarrow> reynolds_only s s'"
  by (auto simp: getLoopHeadLoss_def simp del: loop_traverse.simps split: list.splits
      dest: loop_traverse_frame)


lemma reynolds_only_loop_ready:
  assumes "reynolds_only s s'"
  shows "(list_obj s' (loop_pipes (loop_obj s' l)) \<noteq> []
          \<and> (\<forall>a\<in>set (list_obj s' (loop_pipes (loop_obj s' l))). flows (pipe_obj s' a)))
       = (list_obj s (loop_pipes (loop_obj s l)) \<noteq> []
          \<and> (\<forall>a\<in>set (list_obj s (loop_pipes (loop_obj s l))). flows (pipe_obj s a)))"
proof -
  have "list_obj s' = list_obj s" "loop_obj s' = loop_obj s"
    using assms by (simp_all add: reynolds_only_def)
  then show ?thesis by (simp add: reynolds_only_flows [OF assms])
qed

lemma loopHeadLosses_succeeds:
  "\<forall>l\<in>set ls. list_obj s (loop_pipes (loop_obj s l)) \<noteq> []
       \<and> (\<forall>a\<in>set (list_obj s (loop_pipes (loop_obj s l))). flows (pipe_obj s a)) \<Longrightarrow>
   \<exists>hs s'. loopHeadLosses solve ls s = Inr (hs, s') \<and> length hs = length ls"
proof (induction ls arbitrary: s)
  case Nil
  then show ?case by simp
next
  case (Cons l ls)
  then have "list_obj s (loop_pipes (loop_obj s l)) \<noteq> []"
    and "\<forall>a\<in>set (list_obj s (loop_pipes (loop_obj s l))). flows (pipe_obj s a)"
    by simp_all
  from getLoopHeadLoss_succeeds [OF this] obtain h s1 where
    h: "getLoopHeadLoss solve (loop_obj s l) s = Inr (h, s1)" by blast
  have r: "reynolds_only s s1" using h by (rule getLoopHeadLoss_frame)
  have "\<forall>k\<in>set ls. list_obj s1 (loop_pipes (loop_obj s1 k)) \<noteq> []
       \<and> (\<forall>a\<in>set (list_obj s1 (loop_pipes (loop_obj s1 k))). flows (pipe_obj s1 a))"
    using Cons.prems by (simp add: reynolds_only_loop_ready [OF r])
  from Cons.IH [OF this] obtain hs s2 where
    "loopHeadLosses solve ls s1 = Inr (hs, s2)" "length hs = length ls" by blast
  then show ?case by (simp add: h)
qed

lemma loopHeadLosses_length:
  "loopHeadLosses solve ls s = Inr (hs, s') \<Longrightarrow> length hs = length ls"
  by (induction ls arbitrary: s hs) (auto split: sum.splits)

lemma loopHeadLosses_frame:
  "loopHeadLosses solve ls s = Inr (hs, s') \<Longrightarrow> reynolds_only s s'"
proof (induction ls arbitrary: s hs)
  case Nil
  then show ?case by (simp add: reynolds_only_refl)
next
  case (Cons l ls)
  from Cons.prems obtain h s1 hs' where
    h: "getLoopHeadLoss solve (loop_obj s l) s = Inr (h, s1)"
    and r: "loopHeadLosses solve ls s1 = Inr (hs', s')"
    by (auto split: sum.splits)
  from getLoopHeadLoss_frame [OF h] Cons.IH [OF r] show ?case
    by (rule reynolds_only_trans)
qed

lemma write_flows_fails:
  "i \<le> length q \<Longrightarrow> length q < i + length as \<Longrightarrow> write_flows as q i s = Inl IndexError"
  by (induction as arbitrary: i s) auto

lemma flowQ_only_refl: "flowQ_only s s"
proof -
  have "\<exists>x. pipe_obj s a = (pipe_obj s a)\<lparr>flowQ := x\<rparr>" for a
    by (intro exI [of _ "flowQ (pipe_obj s a)"]) simp
  then show ?thesis by (simp add: flowQ_only_def)
qed

lemma flowQ_only_trans:
  assumes "flowQ_only s s'" and "flowQ_only s' s''"
  shows "flowQ_only s s''"
proof -
  have "\<exists>x. pipe_obj s'' a = (pipe_obj s a)\<lparr>flowQ := x\<rparr>" for a
  proof -
    obtain x where 1: "pipe_obj s' a = (pipe_obj s a)\<lparr>flowQ := x\<rparr>"
      using assms(1) unfolding flowQ_only_def by blast
    obtain y where 2: "pipe_obj s'' a = (pipe_obj s' a)\<lparr>flowQ := y\<rparr>"
      using assms(2) unfolding flowQ_only_def by blast
    show ?thesis unfolding 2 1 by (intro exI [of _ y]) simp
  qed
  then show ?thesis using assms unfolding flowQ_only_def by simp
qed

lemma flowQ_only_step:
  "flowQ_only s (s\<lparr>pipe_obj := (pipe_obj s)(a := (pipe_obj s a)\<lparr>flowQ := x\<rparr>)\<rparr>)"
proof -
  have "\<exists>y. ((pipe_obj s)(a := (pipe_obj s a)\<lparr>flowQ := x\<rparr>)) b = (pipe_obj s b)\<lparr>flowQ := y\<rparr>" for b
  proof (cases "b = a")
    case True
    then show ?thesis by (intro exI [of _ x]) simp
  next
    case False
    then show ?thesis by (intro exI [of _ "flowQ (pipe_obj s b)"]) simp
  qed
  then show ?thesis unfolding flowQ_only_def by simp
qed

lemma write_flows_succeeds:
  "i + length as \<le> length q \<Longrightarrow> \<exists>s'. write_flows as q i s = Inr s' \<and> flowQ_only s s'"
proof (induction as arbitrary: i s)
  case Nil
  then show ?case by (simp add: flowQ_only_refl)
next
  case (Cons a as)
  let ?s = "s\<lparr>pipe_obj := (pipe_obj s)(a := (pipe_obj s a)\<lparr>flowQ := q ! i\<rparr>)\<rparr>"
  from Cons.prems have "Suc i + length as \<le> length q" by simp
  from Cons.IH [OF this, of ?s] obtain s' where
    w: "write_flows as q (Suc i) ?s = Inr s'" and f: "flowQ_only ?s s'" by blast
  have "flowQ_only s ?s" by (rule flowQ_only_step)
  then have "flowQ_only s s'" using f by (rule flowQ_only_trans)
  with w Cons.prems show ?case by simp
qed

lemma write_flows_frame:
  "write_flows as q i s = Inr s' \<Longrightarrow> flowQ_only s s'"
proof (induction as arbitrary: i s)
  case Nil
  then show ?case by (simp add: flowQ_only_refl)
next
  case (Cons a as)
  let ?s = "s\<lparr>pipe_obj := (pipe_obj s)(a := (pipe_obj s a)\<lparr>flowQ := q ! i\<rparr>)\<rparr>"
  from Cons.prems have w: "write_flows as q (Suc i) ?s = Inr s'"
    by (simp split: if_splits)
  have "flowQ_only s ?s" by (rule flowQ_only_step)
  then show ?case using Cons.IH [OF w] by (rule flowQ_only_trans)
qed

lemma flows_flowQ: "flows (p\<lparr>flowQ := x\<rparr>) = flows p"
  by (simp add: flows_def)

lemma flowQ_only_flows:
  assumes "flowQ_only s s'"
  shows "flows (pipe_obj s' a) = flows (pipe_obj s a)"
proof -
  obtain x where "pipe_obj s' a = (pipe_obj s a)\<lparr>flowQ := x\<rparr>"
    using assms unfolding flowQ_only_def by blast
  then show ?thesis by (simp add: flows_flowQ)
qed

lemma flowQ_only_vel:
  assumes "flowQ_only s s'"
  shows "vel (pipe_obj s' a) = vel (pipe_obj s a)"
proof -
  obtain x where "pipe_obj s' a = (pipe_obj s a)\<lparr>flowQ := x\<rparr>"
    using assms unfolding flowQ_only_def by blast
  then show ?thesis by simp
qed

subsection \<open>The head loss around a loop\<close>






subsection \<open>The example network\<close>

lemma example_flows: "flows pipe_ab" "flows pipe_laminar" "flows pipe_transition"
  by (simp_all add: flows_def pipe_ab_def pipe_laminar_def pipe_transition_def water_def oil_def)

lemma example_store_pipes:
  "pipe_obj example_store 0 = pipe_ab"
  "pipe_obj example_store (Suc 0) = pipe_laminar"
  "pipe_obj example_store 2 = pipe_transition"
  by (simp_all add: example_store_def)

lemma example_store_loop:
  "list_obj example_store (loop_pipes (loop_obj example_store l)) = [0, 2, 1]"
  by (simp add: example_store_def Loop_init_def)

lemma example_net_lists:
  "list_obj example_store (net_pipes example_net) = [0, 1, 2]"
  "list_obj example_store (loops example_net) = [0]"
  "list_obj example_store (nodes example_net) = [0, 1, 2]"
  by (simp_all add: example_store_def example_net_def PipeNetwork_init_def
      PipeNetwork_Pipes_default_def PipeNetwork_Loops_default_def PipeNetwork_Nodes_default_def)

lemma unbuilt_net_lists:
  "list_obj example_store (net_pipes unbuilt_net) = [0, 1, 2]"
  "list_obj example_store (loops unbuilt_net) = []"
  "list_obj example_store (nodes unbuilt_net) = []"
  by (simp_all add: example_store_def unbuilt_net_def PipeNetwork_init_def
      PipeNetwork_Pipes_default_def)

lemma FrictionFactor_by_regime:
  assumes "Re_pipe p = Inr (x, p')" and "x \<noteq> 0"
  shows "FrictionFactor solve p g =
     Inr (if 4000 \<le> x then CB solve (roughness p / diameter p) x
          else if x \<le> 2000 then 64 / x
          else (64 / x + ((x - 2000) / 2000) * (CB solve (roughness p / diameter p) x - 64 / x))
               + g 0 * (0.2 * (64 / x
                   + ((x - 2000) / 2000) * (CB solve (roughness p / diameter p) x - 64 / x))),
          p', if 2000 < x \<and> x < 4000 then (\<lambda>n. g (Suc n)) else g)"
proof -
  have p': "p' = p\<lparr>reynolds := x\<rparr>" using assms(1) by (rule Re_frame)
  have xv: "x = rho (fluid p) * vel p * diameter p / mu (fluid p)"
    using assms(1) by (rule Re_value)
  have d: "diameter p \<noteq> 0" using xv assms(2) by auto
  show ?thesis
    using assms d p'
    by (simp add: FrictionFactor_def lam_def Let_def normalvariate_def)
qed

lemma eval_ab:
  "getFlowHeadLoss guess_solver pipe_ab n g
     = Inr ((if n = ''a'' then 1 else - 1) * darcy_weisbach 0.01 pipe_ab, pipe_ab, g)"
proof -
  have x: "reynolds pipe_ab \<noteq> 0" "4000 \<le> reynolds pipe_ab" using pipe_ab_turbulent by simp_all
  have ff: "FrictionFactor guess_solver pipe_ab g = Inr (0.01, pipe_ab, g)"
    using FrictionFactor_by_regime [OF pipe_ab_Re x(1), of guess_solver g] x(2)
    by (simp add: CB_def guess_solver_def)
  have s: "startNode pipe_ab = ''a''" "flowQ pipe_ab = 10" "diameter pipe_ab \<noteq> 0"
    by (simp_all add: pipe_ab_def)
  show ?thesis
    by (simp add: getFlowHeadLoss_def frictionHeadLoss_def ff s darcy_weisbach_def Let_def)
qed

lemma eval_laminar:
  "getFlowHeadLoss guess_solver pipe_laminar n g
     = Inr ((if n = ''a'' then 1 else - 1) * darcy_weisbach (64 / reynolds pipe_laminar) pipe_laminar,
            pipe_laminar, g)"
proof -
  have x: "reynolds pipe_laminar \<noteq> 0" "reynolds pipe_laminar \<le> 2000"
    using pipe_laminar_laminar by simp_all
  have ff: "FrictionFactor guess_solver pipe_laminar g
      = Inr (64 / reynolds pipe_laminar, pipe_laminar, g)"
    using FrictionFactor_by_regime [OF pipe_laminar_Re x(1), of guess_solver g] x(2)
    by simp
  have s: "startNode pipe_laminar = ''a''" "flowQ pipe_laminar = 10" "diameter pipe_laminar \<noteq> 0"
    by (simp_all add: pipe_laminar_def)
  show ?thesis
    by (simp add: getFlowHeadLoss_def frictionHeadLoss_def ff s darcy_weisbach_def Let_def)
qed

lemma eval_transition:
  "getFlowHeadLoss guess_solver pipe_transition n g
     = Inr ((if n = ''b'' then 1 else - 1)
              * darcy_weisbach (transition_mean guess_solver pipe_transition
                    + g 0 * (0.2 * transition_mean guess_solver pipe_transition)) pipe_transition,
            pipe_transition, \<lambda>n. g (Suc n))"
proof -
  have x: "reynolds pipe_transition \<noteq> 0" "2000 < reynolds pipe_transition"
    "reynolds pipe_transition < 4000"
    using pipe_transition_transition by simp_all
  have ff: "FrictionFactor guess_solver pipe_transition g
      = Inr (transition_mean guess_solver pipe_transition
               + g 0 * (0.2 * transition_mean guess_solver pipe_transition), pipe_transition,
             \<lambda>n. g (Suc n))"
    using FrictionFactor_by_regime [OF pipe_transition_Re x(1), of guess_solver g] x(2,3)
    by (simp add: transition_mean_def)
  have s: "startNode pipe_transition = ''b''" "flowQ pipe_transition = 10"
    "diameter pipe_transition \<noteq> 0"
    by (simp_all add: pipe_transition_def)
  show ?thesis
    by (simp add: getFlowHeadLoss_def frictionHeadLoss_def ff s darcy_weisbach_def Let_def)
qed

lemma example_flowQ:
  "pipe_ab\<lparr>flowQ := 10\<rparr> = pipe_ab" "pipe_laminar\<lparr>flowQ := 10\<rparr> = pipe_laminar"
  "pipe_transition\<lparr>flowQ := 10\<rparr> = pipe_transition"
  by (simp_all add: pipe_ab_def pipe_laminar_def pipe_transition_def)

lemma example_pipes_same:
  "(pipe_obj example_store)(0 := pipe_ab, Suc 0 := pipe_laminar, 2 := pipe_transition)
     = pipe_obj example_store"
  by (rule ext) (simp add: example_store_def)

lemma example_write:
  "write_flows [0, 1, 2] [10, 10, 10, 10] 0 (example_store\<lparr>gen := g\<rparr>)
     = Inr (example_store\<lparr>gen := g\<rparr>)"
  by (simp add: example_store_pipes example_flowQ example_pipes_same)


lemma store_same_pipe_gen:
  "pipe_obj s a = p \<Longrightarrow> s\<lparr>pipe_obj := (pipe_obj s)(a := p), gen := g'\<rparr> = s\<lparr>gen := g'\<rparr>"
  by (simp add: fun_upd_idem)

lemma example_traverse:
  assumes p: "pipe_obj s 0 = pipe_ab" "pipe_obj s (Suc 0) = pipe_laminar"
    "pipe_obj s 2 = pipe_transition"
  shows "loop_traverse guess_solver [0, 2, 1] ''a'' 0 s
     = Inr (darcy_weisbach 0.01 pipe_ab
            + darcy_weisbach (transition_mean guess_solver pipe_transition
                + gen s 0 * (0.2 * transition_mean guess_solver pipe_transition)) pipe_transition
            - darcy_weisbach (64 / reynolds pipe_laminar) pipe_laminar,
            s\<lparr>gen := \<lambda>n. gen s (Suc n)\<rparr>)"
proof -
  have e: "endNode pipe_ab = ''b''" "endNode pipe_transition = ''c''"
    "endNode pipe_laminar = ''c''" "startNode pipe_laminar = ''a''" "startNode pipe_ab = ''a''"
    by (simp_all add: pipe_ab_def pipe_transition_def pipe_laminar_def)
  show ?thesis
    by (simp add: p eval_ab eval_transition eval_laminar e fun_upd_idem)
qed

lemma example_loop:
  "getLoopHeadLoss guess_solver (loop_obj example_store l) (example_store\<lparr>gen := g\<rparr>)
     = Inr (darcy_weisbach 0.01 pipe_ab
            + darcy_weisbach (transition_mean guess_solver pipe_transition
                + g 0 * (0.2 * transition_mean guess_solver pipe_transition)) pipe_transition
            - darcy_weisbach (64 / reynolds pipe_laminar) pipe_laminar,
            example_store\<lparr>gen := \<lambda>n. g (Suc n)\<rparr>)"
proof -
  have l: "list_obj (example_store\<lparr>gen := g\<rparr>) (loop_pipes (loop_obj example_store l)) = [0, 2, 1]"
    using example_store_loop [of l] by simp
  have "getLoopHeadLoss guess_solver (loop_obj example_store l) (example_store\<lparr>gen := g\<rparr>)
      = loop_traverse guess_solver [0, 2, 1] ''a'' 0 (example_store\<lparr>gen := g\<rparr>)"
    unfolding getLoopHeadLoss_def l
    by (simp del: loop_traverse.simps add: example_store_pipes pipe_ab_def)
  also have "\<dots> = Inr (darcy_weisbach 0.01 pipe_ab
            + darcy_weisbach (transition_mean guess_solver pipe_transition
                + g 0 * (0.2 * transition_mean guess_solver pipe_transition)) pipe_transition
            - darcy_weisbach (64 / reynolds pipe_laminar) pipe_laminar,
            example_store\<lparr>gen := \<lambda>n. g (Suc n)\<rparr>)"
    using example_traverse [of "example_store\<lparr>gen := g\<rparr>"]
    by (simp del: loop_traverse.simps add: example_store_pipes)
  finally show ?thesis .
qed

lemma example_node_flows:
  "getNodeFlowRates example_net (example_store\<lparr>gen := g\<rparr>) = [0.01, 0, - 0.01]"
proof -
  have n: "node_obj example_store 0 = Node_init ''a'' (Some 10) 30"
    "node_obj example_store (Suc 0) = Node_init ''b'' (Some 11) 0"
    "node_obj example_store 2 = Node_init ''c'' (Some 12) (- 30)"
    by (simp_all add: example_store_def)
  have l: "list_obj example_store 10 = [0, 1]" "list_obj example_store 11 = [0, 2]"
    "list_obj example_store 12 = [1, 2]"
    by (simp_all add: example_store_def)
  have p: "startNode pipe_ab = ''a''" "startNode pipe_laminar = ''a''"
    "startNode pipe_transition = ''b''" "flowQ pipe_ab = 10" "flowQ pipe_laminar = 10"
    "flowQ pipe_transition = 10"
    by (simp_all add: pipe_ab_def pipe_laminar_def pipe_transition_def)
  show ?thesis
    by (simp add: getNodeFlowRates_def getNetFlowRate_def getFlowIntoNode_def example_net_lists
        n l p Node_init_def example_store_pipes)
qed

lemma example_fn:
  "fn guess_solver example_net [10, 10, 10, 10] (example_store\<lparr>gen := g\<rparr>)
     = Inr ([0.01, 0, - 0.01,
             darcy_weisbach 0.01 pipe_ab
             + darcy_weisbach (transition_mean guess_solver pipe_transition
                 + g 0 * (0.2 * transition_mean guess_solver pipe_transition)) pipe_transition
             - darcy_weisbach (64 / reynolds pipe_laminar) pipe_laminar],
            example_store\<lparr>gen := \<lambda>n. g (Suc n)\<rparr>)"
proof -
  let ?S = "example_store\<lparr>gen := g\<rparr>"
  have w: "write_flows (list_obj ?S (net_pipes example_net)) [10, 10, 10, 10] 0 ?S = Inr ?S"
    using example_write [of g] by (simp del: write_flows.simps add: example_net_lists)
  have l: "getLoopHeadLosses guess_solver example_net ?S
      = Inr ([darcy_weisbach 0.01 pipe_ab
             + darcy_weisbach (transition_mean guess_solver pipe_transition
                 + g 0 * (0.2 * transition_mean guess_solver pipe_transition)) pipe_transition
             - darcy_weisbach (64 / reynolds pipe_laminar) pipe_laminar],
            example_store\<lparr>gen := \<lambda>n. g (Suc n)\<rparr>)"
    using example_loop [of 0 g] by (simp add: getLoopHeadLosses_def example_net_lists)
  show ?thesis
    unfolding fn_def w by (simp add: l example_node_flows)
qed

lemma transition_mean_pos: "0 < transition_mean guess_solver pipe_transition"
proof -
  let ?x = "reynolds pipe_transition"
  let ?t = "(?x - 2000) / 2000"
  have x: "2000 < ?x" "?x < 4000" using pipe_transition_transition by simp_all
  have t: "0 < ?t" "?t < 1" using x by simp_all
  have m: "transition_mean guess_solver pipe_transition = (64 / ?x) * (1 - ?t) + ?t * 0.01"
    using x by (simp add: transition_mean_def CB_def guess_solver_def field_simps)
  have "0 < (64 / ?x) * (1 - ?t)" using x t by (intro mult_pos_pos) simp_all
  moreover have "0 < ?t * 0.01" using t by simp
  ultimately show ?thesis unfolding m by (rule add_pos_pos)
qed


subsection \<open>The residual function and the counts\<close>

lemma fn_result_length:
  "fn solve net q s = Inr (res, s') \<Longrightarrow>
     length res = length (list_obj s (nodes net)) + length (list_obj s (loops net))"
proof -
  assume a: "fn solve net q s = Inr (res, s')"
  then obtain s1 lhl where
    w: "write_flows (list_obj s (net_pipes net)) q 0 s = Inr s1"
    and l: "getLoopHeadLosses solve net s1 = Inr (lhl, s')"
    and r: "res = getNodeFlowRates net s1 @ lhl"
    by (auto simp: fn_def Let_def split: sum.splits)
  have f: "flowQ_only s s1" using w by (rule write_flows_frame)
  then have eq: "list_obj s1 = list_obj s" by (simp add: flowQ_only_def)
  have "length lhl = length (list_obj s (loops net))"
    using l loopHeadLosses_length [of solve "list_obj s1 (loops net)" s1 lhl s']
    by (simp add: getLoopHeadLosses_def eq)
  then show ?thesis by (simp add: r getNodeFlowRates_def eq)
qed

lemma fn_succeeds:
  assumes "length (list_obj s (net_pipes net)) \<le> length q"
    and "\<forall>l\<in>set (list_obj s (loops net)). list_obj s (loop_pipes (loop_obj s l)) \<noteq> []
       \<and> (\<forall>a\<in>set (list_obj s (loop_pipes (loop_obj s l))). flows (pipe_obj s a))"
  shows "\<exists>res s'. fn solve net q s = Inr (res, s')"
proof -
  from write_flows_succeeds [of 0 "list_obj s (net_pipes net)" q s] assms(1)
  obtain s1 where w: "write_flows (list_obj s (net_pipes net)) q 0 s = Inr s1"
    and f: "flowQ_only s s1" by auto
  have eq: "list_obj s1 = list_obj s" "loop_obj s1 = loop_obj s"
    using f by (simp_all add: flowQ_only_def)
  have "\<forall>l\<in>set (list_obj s1 (loops net)). list_obj s1 (loop_pipes (loop_obj s1 l)) \<noteq> []
       \<and> (\<forall>a\<in>set (list_obj s1 (loop_pipes (loop_obj s1 l))). flows (pipe_obj s1 a))"
    using assms(2) by (simp add: eq flowQ_only_flows [OF f])
  from loopHeadLosses_succeeds [OF this, of solve] obtain hs s2 where
    "loopHeadLosses solve (list_obj s1 (loops net)) s1 = Inr (hs, s2)" by blast
  then show ?thesis by (simp add: fn_def w getLoopHeadLosses_def)
qed

text \<open>
  The node components of a residual are the node balances of the flows that the
  evaluation leaves in the pipes.
\<close>

lemma getFlowIntoNode_reynolds:
  "getFlowIntoNode (p\<lparr>reynolds := x\<rparr>) n = getFlowIntoNode p n"
  by (simp add: getFlowIntoNode_def)

lemma reynolds_only_flow_into:
  assumes "reynolds_only s s'"
  shows "getFlowIntoNode (pipe_obj s' a) n = getFlowIntoNode (pipe_obj s a) n"
proof -
  obtain x where "pipe_obj s' a = (pipe_obj s a)\<lparr>reynolds := x\<rparr>"
    using assms unfolding reynolds_only_def by blast
  then show ?thesis by (simp add: getFlowIntoNode_reynolds)
qed

lemma reynolds_only_node_flows:
  assumes "reynolds_only s s'"
  shows "getNodeFlowRates net s' = getNodeFlowRates net s"
proof -
  have "list_obj s' = list_obj s" "node_obj s' = node_obj s"
    using assms by (simp_all add: reynolds_only_def)
  then show ?thesis
    by (simp add: getNodeFlowRates_def getNetFlowRate_def reynolds_only_flow_into [OF assms])
qed

lemma fn_node_residuals:
  assumes "fn solve net q s = Inr (res, s')"
  shows "take (length (list_obj s (nodes net))) res = getNodeFlowRates net s'"
proof -
  from assms obtain s1 lhl where
    w: "write_flows (list_obj s (net_pipes net)) q 0 s = Inr s1"
    and l: "getLoopHeadLosses solve net s1 = Inr (lhl, s')"
    and r: "res = getNodeFlowRates net s1 @ lhl"
    by (auto simp: fn_def Let_def split: sum.splits)
  have "flowQ_only s s1" using w by (rule write_flows_frame)
  then have eq: "list_obj s1 = list_obj s" by (simp add: flowQ_only_def)
  have "reynolds_only s1 s'"
    using l unfolding getLoopHeadLosses_def by (rule loopHeadLosses_frame)
  then have "getNodeFlowRates net s' = getNodeFlowRates net s1"
    by (rule reynolds_only_node_flows)
  then show ?thesis by (simp add: r getNodeFlowRates_def eq)
qed

text \<open>
  What the assignment loop of the residual function writes: the pipe at position \<open>k\<close>
  of the list receives the entry \<open>i + k\<close> of the vector (when the same pipe object occurs
  again later in the list, the later entry overwrites it), and a pipe that is not in the
  list is left as it was.
\<close>

lemma write_flows_other:
  "write_flows as q i s = Inr s' \<Longrightarrow> a \<notin> set as \<Longrightarrow> pipe_obj s' a = pipe_obj s a"
proof (induction as arbitrary: i s)
  case Nil
  then show ?case by simp
next
  case (Cons b as)
  let ?s = "s\<lparr>pipe_obj := (pipe_obj s)(b := (pipe_obj s b)\<lparr>flowQ := q ! i\<rparr>)\<rparr>"
  from Cons.prems have w: "write_flows as q (Suc i) ?s = Inr s'"
    by (simp split: if_splits)
  from Cons.prems have n: "a \<notin> set as" "a \<noteq> b" by auto
  from Cons.IH [OF w n(1)] n(2) show ?case by simp
qed

lemma write_flows_flow:
  "write_flows as q i s = Inr s' \<Longrightarrow> k < length as \<Longrightarrow> as ! k \<notin> set (drop (Suc k) as) \<Longrightarrow>
     flowQ (pipe_obj s' (as ! k)) = q ! (i + k)"
proof (induction as arbitrary: i s k)
  case Nil
  then show ?case by simp
next
  case (Cons b as)
  let ?s = "s\<lparr>pipe_obj := (pipe_obj s)(b := (pipe_obj s b)\<lparr>flowQ := q ! i\<rparr>)\<rparr>"
  from Cons.prems(1) have w: "write_flows as q (Suc i) ?s = Inr s'"
    by (simp split: if_splits)
  show ?case
  proof (cases k)
    case 0
    with Cons.prems(3) have "b \<notin> set as" by simp
    from write_flows_other [OF w this] 0 show ?thesis by simp
  next
    case (Suc k')
    with Cons.prems have "k' < length as" "as ! k' \<notin> set (drop (Suc k') as)" by simp_all
    from Cons.IH [OF w this] Suc show ?thesis by simp
  qed
qed


text \<open>
  C8 (as the program has it). \<open>findFlowRates\<close> compares no counts: it hands the
  residual function and a guess of length nodes + loops to the root finder. On a vector
  \<open>q\<close> of that length the residual function raises \<^verbatim>\<open>IndexError\<close> when there are more
  pipes than entries of \<open>q\<close>. Otherwise it writes the first entries of \<open>q\<close> into the
  flows of the pipes: the pipe at position \<open>k\<close> has the flow \<open>q ! k\<close> afterwards (unless
  the same pipe object occurs again later in the list), the pipes outside the list and
  everything but the flows are unchanged; and it goes on to the node balances followed
  by the loop closures.
\<close>

theorem fn_pipe_count:
  assumes "length q = length (list_obj s (nodes net)) + length (list_obj s (loops net))"
  shows "(length q < length (list_obj s (net_pipes net)) \<longrightarrow> fn solve net q s = Inl IndexError)
    \<and> (length (list_obj s (net_pipes net)) \<le> length q \<longrightarrow>
         (\<exists>s1. write_flows (list_obj s (net_pipes net)) q 0 s = Inr s1
            \<and> (\<forall>k < length (list_obj s (net_pipes net)).
                  list_obj s (net_pipes net) ! k
                    \<notin> set (drop (Suc k) (list_obj s (net_pipes net))) \<longrightarrow>
                  flowQ (pipe_obj s1 (list_obj s (net_pipes net) ! k)) = q ! k)
            \<and> (\<forall>a. a \<notin> set (list_obj s (net_pipes net)) \<longrightarrow> pipe_obj s1 a = pipe_obj s a)
            \<and> flowQ_only s s1
            \<and> fn solve net q s =
                (case getLoopHeadLosses solve net s1 of
                   Inl e \<Rightarrow> Inl e
                 | Inr (lhl, s2) \<Rightarrow> Inr (getNodeFlowRates net s1 @ lhl, s2))))
    \<and> findFlowRates fsolve solve net s = fsolve (fn solve net) (replicate (length q) 10) s"
proof (intro conjI impI)
  assume "length q < length (list_obj s (net_pipes net))"
  then have "write_flows (list_obj s (net_pipes net)) q 0 s = Inl IndexError"
    by (intro write_flows_fails) simp_all
  then show "fn solve net q s = Inl IndexError" by (simp add: fn_def)
next
  let ?ps = "list_obj s (net_pipes net)"
  assume "length ?ps \<le> length q"
  with write_flows_succeeds [of 0 ?ps q s]
  obtain s1 where w: "write_flows ?ps q 0 s = Inr s1"
    and f: "flowQ_only s s1" by auto
  have v: "\<forall>k < length ?ps. ?ps ! k \<notin> set (drop (Suc k) ?ps) \<longrightarrow>
      flowQ (pipe_obj s1 (?ps ! k)) = q ! k"
    using write_flows_flow [OF w] by simp
  have o: "\<forall>a. a \<notin> set ?ps \<longrightarrow> pipe_obj s1 a = pipe_obj s a"
    using write_flows_other [OF w] by simp
  have "fn solve net q s =
                (case getLoopHeadLosses solve net s1 of
                   Inl e \<Rightarrow> Inl e
                 | Inr (lhl, s2) \<Rightarrow> Inr (getNodeFlowRates net s1 @ lhl, s2))"
    by (simp add: fn_def w Let_def)
  with w f v o show "\<exists>s1. write_flows ?ps q 0 s = Inr s1
            \<and> (\<forall>k < length ?ps. ?ps ! k \<notin> set (drop (Suc k) ?ps) \<longrightarrow>
                  flowQ (pipe_obj s1 (?ps ! k)) = q ! k)
            \<and> (\<forall>a. a \<notin> set ?ps \<longrightarrow> pipe_obj s1 a = pipe_obj s a)
            \<and> flowQ_only s s1
            \<and> fn solve net q s =
                (case getLoopHeadLosses solve net s1 of
                   Inl e \<Rightarrow> Inl e
                 | Inr (lhl, s2) \<Rightarrow> Inr (getNodeFlowRates net s1 @ lhl, s2))"
    by blast
next
  show "findFlowRates fsolve solve net s = fsolve (fn solve net) (replicate (length q) 10) s"
    by (simp add: findFlowRates_def assms Let_def)
qed

text \<open>
  The two cases: the network whose nodes were never built (three pipes, no node, no
  loop), and the triangle (three pipes, three nodes, one loop), whose pipes hold the flow
  10 before and the flows 20, 30 and 40 after the evaluation at \<open>[20, 30, 40, 50]\<close>.
\<close>

theorem fn_pipe_count_witness:
  "fn guess_solver unbuilt_net [] example_store = Inl IndexError
   \<and> findFlowRates one_evaluation guess_solver unbuilt_net example_store = Inl IndexError
   \<and> (\<exists>s1. write_flows [0, 1, 2] [20, 30, 40, 50] 0 example_store = Inr s1
          \<and> flowQ (pipe_obj example_store 0) = 10
          \<and> flowQ (pipe_obj s1 0) = 20
          \<and> flowQ (pipe_obj s1 1) = 30
          \<and> flowQ (pipe_obj s1 2) = 40
          \<and> pipe_obj s1 3 = pipe_obj example_store 3
          \<and> flowQ_only example_store s1
          \<and> fn guess_solver example_net [20, 30, 40, 50] example_store =
               (case getLoopHeadLosses guess_solver example_net s1 of
                  Inl e \<Rightarrow> Inl e
                | Inr (lhl, s2) \<Rightarrow> Inr (getNodeFlowRates example_net s1 @ lhl, s2)))"
proof (intro conjI)
  have u: "fn guess_solver unbuilt_net [] example_store = Inl IndexError
     \<and> findFlowRates one_evaluation guess_solver unbuilt_net example_store
         = one_evaluation (fn guess_solver unbuilt_net) [] example_store"
    using fn_pipe_count [of "[]" example_store unbuilt_net guess_solver one_evaluation]
    by (simp add: unbuilt_net_lists)
  then show "fn guess_solver unbuilt_net [] example_store = Inl IndexError" by simp
  from u show "findFlowRates one_evaluation guess_solver unbuilt_net example_store
      = Inl IndexError"
    by (simp add: one_evaluation_def)
  have l: "length [20, 30, 40, 50 :: real]
      = length (list_obj example_store (nodes example_net))
        + length (list_obj example_store (loops example_net))"
    by (simp add: example_net_lists)
  from fn_pipe_count [OF l, of guess_solver one_evaluation]
  obtain s1 where w: "write_flows [0, 1, 2] [20, 30, 40, 50] 0 example_store = Inr s1"
    and v: "\<forall>k < 3. [0, 1, 2 :: nat] ! k \<notin> set (drop (Suc k) [0, 1, 2]) \<longrightarrow>
        flowQ (pipe_obj s1 ([0, 1, 2] ! k)) = [20, 30, 40, 50] ! k"
    and o: "\<forall>a. a \<notin> set [0, 1, 2 :: nat] \<longrightarrow> pipe_obj s1 a = pipe_obj example_store a"
    and f: "flowQ_only example_store s1"
    and e: "fn guess_solver example_net [20, 30, 40, 50] example_store =
               (case getLoopHeadLosses guess_solver example_net s1 of
                  Inl e \<Rightarrow> Inl e
                | Inr (lhl, s2) \<Rightarrow> Inr (getNodeFlowRates example_net s1 @ lhl, s2))"
    unfolding example_net_lists by auto
  have v0: "flowQ (pipe_obj s1 0) = 20" using v [rule_format, of 0] by simp
  have v1: "flowQ (pipe_obj s1 1) = 30" using v [rule_format, of 1] by simp
  have v2: "flowQ (pipe_obj s1 2) = 40" using v [rule_format, of 2] by simp
  have o3: "pipe_obj s1 3 = pipe_obj example_store 3" using o [rule_format, of 3] by simp
  have b: "flowQ (pipe_obj example_store 0) = 10"
    by (simp add: example_store_pipes pipe_ab_def)
  from w v0 v1 v2 o3 f e b
  show "\<exists>s1. write_flows [0, 1, 2] [20, 30, 40, 50] 0 example_store = Inr s1
          \<and> flowQ (pipe_obj example_store 0) = 10
          \<and> flowQ (pipe_obj s1 0) = 20
          \<and> flowQ (pipe_obj s1 1) = 30
          \<and> flowQ (pipe_obj s1 2) = 40
          \<and> pipe_obj s1 3 = pipe_obj example_store 3
          \<and> flowQ_only example_store s1
          \<and> fn guess_solver example_net [20, 30, 40, 50] example_store =
               (case getLoopHeadLosses guess_solver example_net s1 of
                  Inl e \<Rightarrow> Inl e
                | Inr (lhl, s2) \<Rightarrow> Inr (getNodeFlowRates example_net s1 @ lhl, s2))"
    by blast
qed


text \<open>
  C8 as stated fails on the triangle: it has three pipes, three nodes and one loop, the
  residual evaluation at the initial guess returns three node balances and one loop
  closure, and the solve returns a vector of four flows without any error. (The network
  of \<^verbatim>\<open>main\<close> has ten pipes, eight nodes and three loops.)
\<close>

theorem mismatched_counts_counterexample:
  "length (list_obj example_store (net_pipes example_net)) = 3
   \<and> length (list_obj example_store (nodes example_net))
       + length (list_obj example_store (loops example_net)) = 4
   \<and> map_sum id fst (fn guess_solver example_net [10, 10, 10, 10]
        (example_store\<lparr>gen := constant_gen 0\<rparr>))
       = Inr [0.01, 0, - 0.01,
              darcy_weisbach 0.01 pipe_ab
              + darcy_weisbach (transition_mean guess_solver pipe_transition) pipe_transition
              - darcy_weisbach (64 / reynolds pipe_laminar) pipe_laminar]
   \<and> map_sum id fst (findFlowRates one_evaluation guess_solver example_net
        (example_store\<lparr>gen := constant_gen 0\<rparr>)) = Inr [10, 10, 10, 10]"
proof -
  let ?S = "example_store\<lparr>gen := constant_gen 0\<rparr>"
  have "findFlowRates one_evaluation guess_solver example_net ?S
      = one_evaluation (fn guess_solver example_net) [10, 10, 10, 10] ?S"
    by (simp add: findFlowRates_def example_net_lists Let_def)
  then have "map_sum id fst (findFlowRates one_evaluation guess_solver example_net ?S)
      = Inr [10, 10, 10, 10]"
    by (simp add: one_evaluation_def example_fn)
  moreover have "map_sum id fst (fn guess_solver example_net [10, 10, 10, 10] ?S)
       = Inr [0.01, 0, - 0.01,
              darcy_weisbach 0.01 pipe_ab
              + darcy_weisbach (transition_mean guess_solver pipe_transition) pipe_transition
              - darcy_weisbach (64 / reynolds pipe_laminar) pipe_laminar]"
    by (simp add: example_fn) (simp add: constant_gen_def)
  ultimately show ?thesis by (simp add: example_net_lists)
qed

subsection \<open>Default collections\<close>

text \<open>
  C10 (the program on two instances built without a collection). Two nodes, two loops
  or two networks constructed without the collection argument hold the same list
  object: an element appended to the collection of one is in the collection of the
  other.
\<close>

theorem default_collections_shared:
  "list_obj (list_append s (pipes (Node_init ''a'' None 0)) x) (pipes (Node_init ''b'' None 0))
     = list_obj s (pipes (Node_init ''b'' None 0)) @ [x]
   \<and> list_obj (list_append s (loop_pipes (Loop_init ''A'' None)) x)
        (loop_pipes (Loop_init ''B'' None))
     = list_obj s (loop_pipes (Loop_init ''B'' None)) @ [x]
   \<and> list_obj (list_append s (net_pipes (PipeNetwork_init None None None fl)) x)
        (net_pipes (PipeNetwork_init None None None fl'))
     = list_obj s (net_pipes (PipeNetwork_init None None None fl')) @ [x]
   \<and> list_obj (list_append s (loops (PipeNetwork_init None None None fl)) x)
        (loops (PipeNetwork_init None None None fl'))
     = list_obj s (loops (PipeNetwork_init None None None fl')) @ [x]
   \<and> list_obj (list_append s (nodes (PipeNetwork_init None None None fl)) x)
        (nodes (PipeNetwork_init None None None fl'))
     = list_obj s (nodes (PipeNetwork_init None None None fl')) @ [x]"
  by (simp add: list_append_def Node_init_def Loop_init_def PipeNetwork_init_def)

text \<open>Collections passed explicitly as different list objects are independent.\<close>

lemma explicit_collections_separate:
  "l \<noteq> l' \<Longrightarrow>
     list_obj (list_append s (pipes (Node_init n (Some l) e)) x) (pipes (Node_init n' (Some l') e'))
       = list_obj s (pipes (Node_init n' (Some l') e'))"
  by (simp add: list_append_def Node_init_def)

subsection \<open>The velocity after a flow is written\<close>

lemma Re_ignores_flowQ:
  "Re_pipe (p\<lparr>flowQ := q\<rparr>) = map_sum id (\<lambda>(x, p'). (x, p'\<lparr>flowQ := q\<rparr>)) (Re_pipe p)"
  by (simp add: Re_pipe_def Let_def)

lemma FrictionFactor_ignores_flowQ:
  "FrictionFactor solve (p\<lparr>flowQ := q\<rparr>) g
     = map_sum id (\<lambda>(f, p', g'). (f, p'\<lparr>flowQ := q\<rparr>, g')) (FrictionFactor solve p g)"
  by (simp add: FrictionFactor_def Re_pipe_def Let_def lam_def normalvariate_def)

lemma frictionHeadLoss_ignores_flowQ:
  "frictionHeadLoss solve (p\<lparr>flowQ := q\<rparr>) g
     = map_sum id (\<lambda>(h, p', g'). (h, p'\<lparr>flowQ := q\<rparr>, g')) (frictionHeadLoss solve p g)"
  by (auto simp: frictionHeadLoss_def FrictionFactor_ignores_flowQ split: sum.splits)

text \<open>
  C2 (the program after a trial flow is written). The assignment of the residual
  function writes \<^verbatim>\<open>Q = 20\<close> into the pipe \<open>a-b\<close> and nothing else; the stored velocity
  is still the one of \<^verbatim>\<open>Q = 10\<close> set by the constructor, \<open>Re\<close> returns the Reynolds number
  of \<^verbatim>\<open>Q = 10\<close>, not the one of the new flow, and the head loss is the one of the pipe
  before the write.
\<close>

theorem velocity_not_recomputed:
  "write_flows [0] [20] 0 example_store
     = Inr (example_store\<lparr>pipe_obj := (pipe_obj example_store)(0 := pipe_ab\<lparr>flowQ := 20\<rparr>)\<rparr>)
   \<and> vel (pipe_ab\<lparr>flowQ := 20\<rparr>) = (10 / 1000) / area pipe_ab
   \<and> vel (pipe_ab\<lparr>flowQ := 20\<rparr>) \<noteq> (20 / 1000) / area pipe_ab
   \<and> Re_pipe (pipe_ab\<lparr>flowQ := 20\<rparr>) = Inr (reynolds pipe_ab, pipe_ab\<lparr>flowQ := 20\<rparr>)
   \<and> reynolds pipe_ab
       \<noteq> rho (fluid pipe_ab) * ((20 / 1000) / area pipe_ab) * diameter pipe_ab
            / mu (fluid pipe_ab)
   \<and> map_sum id fst (frictionHeadLoss solve (pipe_ab\<lparr>flowQ := 20\<rparr>) g)
       = map_sum id fst (frictionHeadLoss solve pipe_ab g)"
proof (intro conjI)
  show "write_flows [0] [20] 0 example_store
     = Inr (example_store\<lparr>pipe_obj := (pipe_obj example_store)(0 := pipe_ab\<lparr>flowQ := 20\<rparr>)\<rparr>)"
    by (simp add: example_store_pipes)
  show "vel (pipe_ab\<lparr>flowQ := 20\<rparr>) = (10 / 1000) / area pipe_ab"
    by (simp add: pipe_ab_def)
  show "vel (pipe_ab\<lparr>flowQ := 20\<rparr>) \<noteq> (20 / 1000) / area pipe_ab"
    by (simp add: pipe_ab_def)
  show "Re_pipe (pipe_ab\<lparr>flowQ := 20\<rparr>) = Inr (reynolds pipe_ab, pipe_ab\<lparr>flowQ := 20\<rparr>)"
    by (simp add: Re_ignores_flowQ pipe_ab_Re)
  show "reynolds pipe_ab
       \<noteq> rho (fluid pipe_ab) * ((20 / 1000) / area pipe_ab) * diameter pipe_ab
            / mu (fluid pipe_ab)"
    by (simp add: pipe_ab_def water_def)
  show "map_sum id fst (frictionHeadLoss solve (pipe_ab\<lparr>flowQ := 20\<rparr>) g)
       = map_sum id fst (frictionHeadLoss solve pipe_ab g)"
    by (cases "frictionHeadLoss solve pipe_ab g") (auto simp: frictionHeadLoss_ignores_flowQ)
qed

subsection \<open>The friction factor in the transition regime\<close>

text \<open>
  C3 (as the program has it). In every evaluation, those of the solver iteration
  included, the friction factor of a pipe whose Reynolds number lies strictly between
  2000 and 4000 is a random sample: the blended mean plus the next standard normal
  deviate of the generator times 0.2 times the mean; the evaluation consumes that
  deviate.
\<close>

theorem FrictionFactor_transition_sample:
  assumes "Re_pipe p = Inr (x, p')" and "2000 < x" and "x < 4000"
  shows "FrictionFactor solve p g
    = Inr ((64 / x + ((x - 2000) / 2000) * (CB solve (roughness p / diameter p) x - 64 / x))
           + g 0 * (0.2 * (64 / x
                + ((x - 2000) / 2000) * (CB solve (roughness p / diameter p) x - 64 / x))),
           p', \<lambda>n. g (Suc n))"
proof -
  have p': "p' = p\<lparr>reynolds := x\<rparr>" using assms(1) by (rule Re_frame)
  have xv: "x = rho (fluid p) * vel p * diameter p / mu (fluid p)"
    using assms(1) by (rule Re_value)
  have d: "diameter p \<noteq> 0" using xv assms(2) by auto
  show ?thesis
    using assms d p'
    by (simp add: FrictionFactor_def lam_def Let_def normalvariate_def)
qed

theorem FrictionFactor_transition_sample_witness:
  "FrictionFactor guess_solver pipe_transition (constant_gen 1)
     = Inr ((64 / reynolds pipe_transition
              + ((reynolds pipe_transition - 2000) / 2000) * (0.01 - 64 / reynolds pipe_transition))
            + 1 * (0.2 * (64 / reynolds pipe_transition
              + ((reynolds pipe_transition - 2000) / 2000)
                * (0.01 - 64 / reynolds pipe_transition))),
            pipe_transition, constant_gen 1)"
proof -
  have x: "2000 < reynolds pipe_transition" "reynolds pipe_transition < 4000"
    using pipe_transition_transition by simp_all
  have c: "CB guess_solver rr y = 0.01" for rr y
    by (simp add: CB_def guess_solver_def)
  have g: "constant_gen 1 0 = 1" by (simp add: constant_gen_def)
  show ?thesis
    using FrictionFactor_transition_sample [OF pipe_transition_Re x, of guess_solver "constant_gen 1"]
    unfolding c g constant_gen_tail .
qed

text \<open>
  C3 as stated fails: two evaluations of the residual function on the same network at
  the same initial guess, with generators that yield different deviates, return
  different residual vectors.
\<close>

theorem random_residual_counterexample:
  "fn guess_solver example_net [10, 10, 10, 10] (example_store\<lparr>gen := constant_gen 0\<rparr>)
     \<noteq> fn guess_solver example_net [10, 10, 10, 10] (example_store\<lparr>gen := constant_gen 1\<rparr>)
   \<and> map_sum id fst
        (fn guess_solver example_net [10, 10, 10, 10] (example_store\<lparr>gen := constant_gen 0\<rparr>))
     \<noteq> map_sum id fst
        (fn guess_solver example_net [10, 10, 10, 10] (example_store\<lparr>gen := constant_gen 1\<rparr>))"
proof -
  let ?m = "transition_mean guess_solver pipe_transition"
  define K where "K = pipe_length pipe_transition / diameter pipe_transition
             * ((vel pipe_transition)\<^sup>2 / (2 * 9.81))"
  have K: "K \<noteq> 0" by (simp add: K_def pipe_transition_def)
  have lin: "darcy_weisbach f pipe_transition = f * K" for f
    by (simp add: darcy_weisbach_def K_def)
  have "darcy_weisbach (?m + 0 * (0.2 * ?m)) pipe_transition
          \<noteq> darcy_weisbach (?m + 1 * (0.2 * ?m)) pipe_transition"
    unfolding lin using transition_mean_pos K by simp
  then show ?thesis
    by (simp add: example_fn constant_gen_def)
qed

end
